theory Spec2Isabelle
  imports Main "HOL-Library.Word" "HOL-Library.Sublist"
begin

unbundle bit_operations_syntax

section \<open>Common types\<close>

type_synonym byte = "8 word"
type_synonym lsn_t = "64 word"

text \<open>Decimal rendering of an unsigned integer, as \<^verbatim>\<open>%d\<close>, \<^verbatim>\<open>%u\<close> and
  \<^verbatim>\<open>%llu\<close> print it.\<close>

function decimal :: "nat \<Rightarrow> string" where
  "decimal n =
     (if n < 10 then [''0123456789'' ! n]
      else decimal (n div 10) @ [''0123456789'' ! (n mod 10)])"
  by pat_completeness auto
termination
  by (relation "measure id") auto

declare decimal.simps [simp del]

section \<open>The page server (Go, \<^verbatim>\<open>src/unnamed/part_001\<close>)\<close>

subsection \<open>Request and response structures\<close>

record GetPageRequest =
  gp_SpaceID :: "32 word"
  gp_PageNo :: "32 word"
  gp_LSN :: lsn_t

text \<open>A field tagged \<^verbatim>\<open>omitempty\<close> is left out of the JSON text when it holds its zero
  value; the record keeps the value of the Go struct.\<close>

record GetPageResponse =
  gr_Status :: string
  gr_PageData :: string
  gr_PageLSN :: lsn_t
  gr_Error :: string

record StreamWALRequest =
  sw_LSN :: lsn_t
  sw_WALData :: string
  sw_SpaceID :: "32 word"
  sw_PageNo :: "32 word"

record StreamWALResponse =
  sr_Status :: string
  sr_LastAppliedLSN :: lsn_t
  sr_Error :: string

record WALRecord =
  wr_LSN :: lsn_t
  wr_WALData :: "byte list"
  wr_SpaceID :: "32 word"
  wr_PageNo :: "32 word"

record PingResponse =
  pr_Status :: string
  pr_Version :: string

text \<open>The two locks of the Go struct guard the two fields; a handler is modelled as one
  atomic step on the pair of fields.\<close>

record PageServer =
  pages :: "string \<rightharpoonup> byte list"
  walRecords :: "WALRecord list"

definition NewPageServer :: PageServer where
  "NewPageServer = \<lparr>pages = Map.empty, walRecords = []\<rparr>"

subsection \<open>HTTP requests and responses as the handlers see them\<close>

datatype http_verb = GET | POST | OTHER_VERB

text \<open>A request is its verb and the outcome of \<^verbatim>\<open>json.NewDecoder(r.Body).Decode(&req)\<close>:
  the decoded structure, or \<open>None\<close> when decoding fails.\<close>

record 'a http_req =
  verb :: http_verb
  decoded :: "'a option"

text \<open>A response is either \<^verbatim>\<open>http.Error(w, msg, code)\<close> or a JSON-encoded structure with
  the status code written before it (200 when none is written).\<close>

datatype 'r http_resp = HttpError nat string | JsonResp nat 'r

subsection \<open>Go's standard base64 encoding\<close>

definition encodeStd :: string where
  "encodeStd = ''ABCDEFGHIJKLMNOPQRSTUVWXYZabcdefghijklmnopqrstuvwxyz0123456789+/''"

definition std_char :: "nat \<Rightarrow> char" where
  "std_char n = encodeStd ! (n mod 64)"

text \<open>\<^verbatim>\<open>base64.StdEncoding.EncodeToString\<close>: RFC 4648 with padding.\<close>

fun EncodeToString :: "byte list \<Rightarrow> string" where
  "EncodeToString [] = []"
| "EncodeToString [a] =
     [std_char (unat a div 4), std_char ((unat a mod 4) * 16), CHR ''='', CHR ''='']"
| "EncodeToString [a, b] =
     [std_char (unat a div 4), std_char ((unat a mod 4) * 16 + unat b div 16),
      std_char ((unat b mod 16) * 4), CHR ''='']"
| "EncodeToString (a # b # c # rest) =
     [std_char (unat a div 4), std_char ((unat a mod 4) * 16 + unat b div 16),
      std_char ((unat b mod 16) * 4 + unat c div 64), std_char (unat c mod 64)]
     @ EncodeToString rest"

definition std_index :: "char \<Rightarrow> nat option" where
  "std_index c =
     (let n = (of_char c :: nat) in
      if 65 \<le> n \<and> n \<le> 90 then Some (n - 65)
      else if 97 \<le> n \<and> n \<le> 122 then Some (n - 97 + 26)
      else if 48 \<le> n \<and> n \<le> 57 then Some (n - 48 + 52)
      else if n = 43 then Some 62
      else if n = 47 then Some 63
      else None)"

text \<open>\<^verbatim>\<open>base64.StdEncoding.DecodeString\<close>: carriage returns and line feeds are skipped,
  the rest is read in groups of four characters, and padding is accepted only in the
  last group; \<open>None\<close> is the error return.\<close>

fun decode_quads :: "string \<Rightarrow> byte list option" where
  "decode_quads [] = Some []"
| "decode_quads (a # b # c # d # rest) =
     (case (std_index a, std_index b) of
        (Some x, Some y) \<Rightarrow>
          (if c = CHR ''='' \<and> d = CHR ''='' \<and> rest = [] then
             Some [of_nat (x * 4 + y div 16)]
           else
             (case std_index c of
                None \<Rightarrow> None
              | Some z \<Rightarrow>
                  (if d = CHR ''='' \<and> rest = [] then
                     Some [of_nat (x * 4 + y div 16), of_nat ((y mod 16) * 16 + z div 4)]
                   else
                     (case (std_index d, decode_quads rest) of
                        (Some w, Some bs) \<Rightarrow>
                          Some (of_nat (x * 4 + y div 16) # of_nat ((y mod 16) * 16 + z div 4)
                                # of_nat ((z mod 4) * 64 + w) # bs)
                      | _ \<Rightarrow> None))))
      | _ \<Rightarrow> None)"
| "decode_quads _ = None"

definition DecodeString :: "string \<Rightarrow> byte list option" where
  "DecodeString s = decode_quads (filter (\<lambda>c. c \<noteq> CHR 0x0D \<and> c \<noteq> CHR 0x0A) s)"

subsection \<open>Handlers\<close>

definition page_key :: "32 word \<Rightarrow> 32 word \<Rightarrow> string" where
  "page_key space_id page_no = decimal (unat space_id) @ '':'' @ decimal (unat page_no)"

definition handleGetPage ::
  "PageServer \<Rightarrow> GetPageRequest http_req \<Rightarrow> GetPageResponse http_resp \<times> PageServer" where
  "handleGetPage s r =
     (if verb r \<noteq> POST then (HttpError 405 ''Method not allowed'', s)
      else
        (case decoded r of
           None \<Rightarrow> (HttpError 400 ''Invalid JSON'', s)
         | Some req \<Rightarrow>
             (let key = page_key (gp_SpaceID req) (gp_PageNo req) in
              case pages s key of
                None \<Rightarrow>
                  (JsonResp 404
                     \<lparr>gr_Status = ''error'', gr_PageData = [], gr_PageLSN = 0,
                      gr_Error = ''Page not found: space='' @ decimal (unat (gp_SpaceID req))
                                 @ '' page='' @ decimal (unat (gp_PageNo req))\<rparr>, s)
              | Some pageData \<Rightarrow>
                  (JsonResp 200
                     \<lparr>gr_Status = ''success'', gr_PageData = EncodeToString pageData,
                      gr_PageLSN = gp_LSN req, gr_Error = []\<rparr>, s))))"

definition handleStreamWAL ::
  "PageServer \<Rightarrow> StreamWALRequest http_req \<Rightarrow> StreamWALResponse http_resp \<times> PageServer" where
  "handleStreamWAL s r =
     (if verb r \<noteq> POST then (HttpError 405 ''Method not allowed'', s)
      else
        (case decoded r of
           None \<Rightarrow> (HttpError 400 ''Invalid JSON'', s)
         | Some req \<Rightarrow>
             (case DecodeString (sw_WALData req) of
                None \<Rightarrow> (HttpError 400 ''Invalid base64 WAL data'', s)
              | Some walData \<Rightarrow>
                  (let record = \<lparr>wr_LSN = sw_LSN req, wr_WALData = walData,
                                 wr_SpaceID = sw_SpaceID req, wr_PageNo = sw_PageNo req\<rparr>
                   in (JsonResp 200
                         \<lparr>sr_Status = ''success'', sr_LastAppliedLSN = sw_LSN req,
                          sr_Error = []\<rparr>,
                       s\<lparr>walRecords := walRecords s @ [record]\<rparr>)))))"

definition handlePing :: "PageServer \<Rightarrow> http_verb \<Rightarrow> PingResponse http_resp \<times> PageServer" where
  "handlePing s v =
     (if v \<noteq> GET then (HttpError 405 ''Method not allowed'', s)
      else (JsonResp 200 \<lparr>pr_Status = ''ok'', pr_Version = ''1.0.0''\<rparr>, s))"

section \<open>The page server client (C++, \<^verbatim>\<open>src/unnamed/part_000\<close>)\<close>

datatype dberr_t = DB_SUCCESS | DB_ERROR

definition MAX_RESPONSE_SIZE :: nat where
  "MAX_RESPONSE_SIZE = 64 * 1024"

definition MAX_RETRIES :: nat where
  "MAX_RETRIES = 2"

subsection \<open>Base64\<close>

definition base64_chars :: string where
  "base64_chars = ''ABCDEFGHIJKLMNOPQRSTUVWXYZabcdefghijklmnopqrstuvwxyz0123456789+/''"

text \<open>The body of the encoder's loop at input position \<open>i\<close>: the four characters it
  stores. \<open>len\<close> is the length of \<open>data\<close>.\<close>

definition encode_group :: "byte list \<Rightarrow> nat \<Rightarrow> string" where
  "encode_group data i =
     (let len = length data;
          b = (push_bit 16 (ucast (data ! i))
               OR push_bit 8 (if i + 1 < len then ucast (data ! (i + 1)) else 0)
               OR (if i + 2 < len then ucast (data ! (i + 2)) else 0) :: 32 word)
      in [base64_chars ! unat (drop_bit 18 b AND 0x3F),
          base64_chars ! unat (drop_bit 12 b AND 0x3F),
          if i + 1 < len then base64_chars ! unat (drop_bit 6 b AND 0x3F) else CHR ''='',
          if i + 2 < len then base64_chars ! unat (b AND 0x3F) else CHR ''=''])"

function base64_encode_loop :: "byte list \<Rightarrow> nat \<Rightarrow> nat \<Rightarrow> nat \<Rightarrow> string" where
  "base64_encode_loop data i j out_len =
     (if i < length data \<and> j + 4 < out_len
      then encode_group data i @ base64_encode_loop data (i + 3) (j + 4) out_len
      else [])"
  by pat_completeness auto
termination
  by (relation "measure (\<lambda>(data, i, j, out_len). length data - i)") auto

declare base64_encode_loop.simps [simp del]

text \<open>\<^verbatim>\<open>base64_encode(data, len, out, out_len)\<close>: the result is the C string left in
  \<open>out\<close>.\<close>

definition base64_encode :: "byte list \<Rightarrow> nat \<Rightarrow> string" where
  "base64_encode data out_len = base64_encode_loop data 0 0 out_len"

text \<open>The decoder's character classes: \<open>None\<close> is the final \<^verbatim>\<open>else continue\<close>.\<close>

definition decode_index :: "char \<Rightarrow> nat option" where
  "decode_index c =
     (let n = (of_char c :: nat) in
      if 65 \<le> n \<and> n \<le> 90 then Some (n - 65)
      else if 97 \<le> n \<and> n \<le> 122 then Some (n - 97 + 26)
      else if 48 \<le> n \<and> n \<le> 57 then Some (n - 48 + 52)
      else if n = 43 then Some 62
      else if n = 47 then Some 63
      else None)"

text \<open>The three guarded stores made when a group of four input positions is complete;
  \<open>j\<close> is the length of \<open>out\<close>.\<close>

definition store_group :: "byte list \<Rightarrow> 32 word \<Rightarrow> nat \<Rightarrow> nat \<Rightarrow> byte list" where
  "store_group out val pad out_len =
     (let out1 = (if length out < out_len then out @ [ucast (drop_bit 16 val AND 0xFF)] else out);
          out2 = (if length out1 < out_len \<and> pad < 2
                  then out1 @ [ucast (drop_bit 8 val AND 0xFF)] else out1);
          out3 = (if length out2 < out_len \<and> pad < 1
                  then out2 @ [ucast (val AND 0xFF)] else out2)
      in out3)"

fun base64_decode_loop ::
  "string \<Rightarrow> nat \<Rightarrow> byte list \<Rightarrow> 32 word \<Rightarrow> nat \<Rightarrow> nat \<Rightarrow> byte list" where
  "base64_decode_loop [] i out val pad out_len = out"
| "base64_decode_loop (c # cs) i out val pad out_len =
     (if length out < out_len then
        (if c = CHR ''='' then base64_decode_loop cs (i + 1) out val (pad + 1) out_len
         else
           (case decode_index c of
              None \<Rightarrow> base64_decode_loop cs (i + 1) out val pad out_len
            | Some idx \<Rightarrow>
                (let val' = push_bit 6 val OR of_nat idx in
                 if (i + 1) mod 4 = 0
                 then base64_decode_loop cs (i + 1) (store_group out val' pad out_len) 0 pad out_len
                 else base64_decode_loop cs (i + 1) out val' pad out_len)))
      else out)"

text \<open>\<^verbatim>\<open>base64_decode(in, out, out_len)\<close>: the result is the bytes stored in \<open>out\<close>;
  the C function returns their number.\<close>

definition base64_decode :: "string \<Rightarrow> nat \<Rightarrow> byte list" where
  "base64_decode inp out_len = base64_decode_loop inp 0 [] 0 0 out_len"

subsection \<open>C strings and the ad hoc JSON reader\<close>

text \<open>A C string is modelled by its characters before the terminator. \<open>c_str\<close> reads
  a buffer of raw bytes as a C string.\<close>

definition c_str :: "string \<Rightarrow> string" where
  "c_str buf = takeWhile (\<lambda>c. c \<noteq> CHR 0x00) buf"

text \<open>\<^verbatim>\<open>strstr\<close> and \<^verbatim>\<open>strchr\<close> return the rest of the string from the first match
  on, as the C pointer does.\<close>

fun strstr :: "string \<Rightarrow> string \<Rightarrow> string option" where
  "strstr [] needle = (if needle = [] then Some [] else None)"
| "strstr (h # hs) needle =
     (if prefix needle (h # hs) then Some (h # hs) else strstr hs needle)"

definition strchr :: "string \<Rightarrow> char \<Rightarrow> string option" where
  "strchr s c = (case dropWhile (\<lambda>x. x \<noteq> c) s of [] \<Rightarrow> None | r # rs \<Rightarrow> Some (r # rs))"

definition isspace :: "char \<Rightarrow> bool" where
  "isspace c = (c = CHR '' '' \<or> (9 \<le> (of_char c :: nat) \<and> (of_char c :: nat) \<le> 13))"

definition isdigit :: "char \<Rightarrow> bool" where
  "isdigit c = (48 \<le> (of_char c :: nat) \<and> (of_char c :: nat) \<le> 57)"

definition digits_value :: "string \<Rightarrow> nat" where
  "digits_value s = foldl (\<lambda>a d. a * 10 + (of_char d - 48)) 0 (takeWhile isdigit s)"

text \<open>\<^verbatim>\<open>strtoull(pos, nullptr, 10)\<close> of the C library: white space, an optional sign,
  decimal digits; the value saturates at \<^verbatim>\<open>ULLONG_MAX\<close>, and a minus sign negates it
  modulo \<open>2 ^ 64\<close>.\<close>

definition strtoull :: "string \<Rightarrow> 64 word" where
  "strtoull s =
     (let s1 = dropWhile isspace s;
          neg = (s1 \<noteq> [] \<and> hd s1 = CHR ''-'');
          s2 = (if s1 \<noteq> [] \<and> (hd s1 = CHR ''-'' \<or> hd s1 = CHR ''+'') then tl s1 else s1);
          n = digits_value s2
      in if 2 ^ 64 \<le> n then - 1 else if neg then - of_nat n else of_nat n)"

text \<open>\<^verbatim>\<open>strtol(s, NULL, 10)\<close> of the C library with a 64-bit \<^verbatim>\<open>long\<close>: white space, an
  optional sign, decimal digits; the value saturates at \<^verbatim>\<open>LONG_MIN\<close> and
  \<^verbatim>\<open>LONG_MAX\<close>.\<close>

definition strtol :: "string \<Rightarrow> int" where
  "strtol s =
     (let s1 = dropWhile isspace s;
          neg = (s1 \<noteq> [] \<and> hd s1 = CHR ''-'');
          s2 = (if s1 \<noteq> [] \<and> (hd s1 = CHR ''-'' \<or> hd s1 = CHR ''+'') then tl s1 else s1);
          n = int (digits_value s2)
      in max (- (2 ^ 63)) (min (2 ^ 63 - 1) (if neg then - n else n)))"

text \<open>\<^verbatim>\<open>atoi\<close> as the C library defines it, \<^verbatim>\<open>(int) strtol(s, NULL, 10)\<close>: the cast
  keeps the low 32 bits, read as a signed value.\<close>

definition atoi :: "string \<Rightarrow> int" where
  "atoi s = (let v = strtol s mod 2 ^ 32 in if 2 ^ 31 \<le> v then v - 2 ^ 32 else v)"

datatype json_value = JMissing | JValue string | JPastEnd

definition unescape :: "char \<Rightarrow> char" where
  "unescape e =
     (if e = CHR ''n'' then CHR 0x0A
      else if e = CHR ''r'' then CHR 0x0D
      else if e = CHR ''t'' then CHR 0x09
      else e)"

text \<open>The copy loop of \<^verbatim>\<open>json_get_string\<close>; \<open>room\<close> is \<^verbatim>\<open>value_len - 1 - i\<close>. A
  backslash that is the last character of the text makes the source step over the
  terminator and read on: the result is \<open>None\<close> there.\<close>

fun json_copy :: "string \<Rightarrow> nat \<Rightarrow> string option" where
  "json_copy [] room = Some []"
| "json_copy [c] room =
     (if c = CHR 0x22 \<or> room = 0 then Some []
      else if c = CHR 0x5C then None
      else Some [c])"
| "json_copy (c # e # cs) room =
     (if c = CHR 0x22 \<or> room = 0 then Some []
      else if c = CHR 0x5C then map_option ((#) (unescape e)) (json_copy cs (room - 1))
      else map_option ((#) c) (json_copy (e # cs) (room - 1)))"

definition json_key :: "string \<Rightarrow> string" where
  "json_key key = CHR 0x22 # key @ [CHR 0x22]"

definition json_get_string :: "string \<Rightarrow> string \<Rightarrow> nat \<Rightarrow> json_value" where
  "json_get_string json key value_len =
     (case strstr json (json_key key) of
        None \<Rightarrow> JMissing
      | Some pos \<Rightarrow>
          (case strchr pos (CHR '':'') of
             None \<Rightarrow> JMissing
           | Some colon \<Rightarrow>
               (case dropWhile (\<lambda>c. c = CHR '' '' \<or> c = CHR 0x09) (tl colon) of
                  [] \<Rightarrow> JMissing
                | q # rest \<Rightarrow>
                    if q \<noteq> CHR 0x22 then JMissing
                    else (case json_copy rest (value_len - 1) of
                            None \<Rightarrow> JPastEnd
                          | Some v \<Rightarrow> JValue v))))"

definition json_get_uint64 :: "string \<Rightarrow> string \<Rightarrow> 64 word option" where
  "json_get_uint64 json key =
     (case strstr json (json_key key) of
        None \<Rightarrow> None
      | Some pos \<Rightarrow>
          (case strchr pos (CHR '':'') of
             None \<Rightarrow> None
           | Some colon \<Rightarrow>
               Some (strtoull (dropWhile (\<lambda>c. c = CHR '' '' \<or> c = CHR 0x09) (tl colon)))))"

definition crlfcrlf :: string where
  "crlfcrlf = [CHR 0x0D, CHR 0x0A, CHR 0x0D, CHR 0x0A]"

definition extract_json_body :: "string \<Rightarrow> string" where
  "extract_json_body http_response =
     (case strstr http_response crlfcrlf of
        Some body \<Rightarrow> drop 4 body
      | None \<Rightarrow>
          (case strstr http_response [CHR 0x0A, CHR 0x0A] of
             Some body \<Rightarrow> drop 2 body
           | None \<Rightarrow> http_response))"

subsection \<open>The network and the allocator as the client sees them\<close>

datatype alloc_site = AllocAddress | AllocAddrCopy | AllocResponse | AllocPageData | AllocWal

text \<open>What the world does during one call of the client. The fields are indexed by the
  value of \<open>retry\<close> in the request loop:
  \<^item> \<open>connect_fd\<close>: the descriptor \<^verbatim>\<open>http_connect\<close> returns, negative on failure;
  \<^item> \<open>request_alloc_ok\<close>: \<^verbatim>\<open>my_malloc\<close> of the request buffer succeeds;
  \<^item> \<open>send_ok\<close>: \<^verbatim>\<open>send\<close> does not return a negative value;
  \<^item> \<open>recv_bytes retry k\<close>: the bytes the \<open>k\<close>-th \<^verbatim>\<open>recv\<close> of that iteration offers
    (the empty list when \<^verbatim>\<open>recv\<close> returns 0 or fails).

  \<open>malloc_ok\<close> says whether \<^verbatim>\<open>my_malloc\<close> succeeds at the other allocation sites, and
  \<open>freed_text\<close> what the characters of a heap buffer read as after \<^verbatim>\<open>my_free\<close> has
  released it.

  The method, path and body of a request shape only the bytes sent; no branch of the
  client depends on them, so they are not arguments of the model.\<close>

record net_env =
  connect_fd :: "nat \<Rightarrow> int"
  request_alloc_ok :: "nat \<Rightarrow> bool"
  send_ok :: "nat \<Rightarrow> bool"
  recv_bytes :: "nat \<Rightarrow> nat \<Rightarrow> string"
  malloc_ok :: "alloc_site \<Rightarrow> bool"
  freed_text :: "string \<Rightarrow> string"

text \<open>The static variables of the client.\<close>

record client =
  page_server_enabled :: bool
  page_server_initialized :: bool
  page_server_address :: "string option"
  page_server_host :: "string option"
  page_server_port :: nat
  page_server_socket :: int

text \<open>What a call of \<^verbatim>\<open>http_request\<close> did: the value returned, the response buffer read
  as a C string (empty unless the call succeeds: callers read it only then),
  \<^verbatim>\<open>page_server_socket\<close> afterwards, the arguments of \<^verbatim>\<open>usleep\<close> in order, and the
  number of iterations of the request loop that were entered.\<close>

record http_result =
  hr_err :: dberr_t
  hr_response :: string
  hr_socket :: int
  hr_sleeps :: "nat list"
  hr_attempts :: nat

subsection \<open>\<^verbatim>\<open>http_request\<close>\<close>

text \<open>The inner read loop. \<open>resp\<close> holds the \<open>total\<close> bytes copied so far; the second
  component of the result is whether the loop set \<open>reconnect\<close>. \<^verbatim>\<open>recv\<close> is asked for at
  most 4095 bytes. The loop is entered only from \<^verbatim>\<open>http_request\<close>, with a
  \<open>response_size\<close> of 1024 or 65536.\<close>

function read_response :: "(nat \<Rightarrow> string) \<Rightarrow> nat \<Rightarrow> nat \<Rightarrow> string \<Rightarrow> string \<times> bool" where
  "read_response rcv response_size k resp =
     (if length resp < response_size - 1 then
        (let buffer = take 4095 (rcv k); n = length buffer in
         if n = 0 then (resp, True)
         else if response_size - 1 \<le> length resp + n then
           (resp @ take (response_size - length resp - 1) buffer, False)
         else if strstr (c_str (resp @ buffer)) crlfcrlf \<noteq> None then (resp @ buffer, False)
         else read_response rcv response_size (Suc k) (resp @ buffer))
      else (resp, False))"
  by pat_completeness auto
termination
  by (relation "measure (\<lambda>(rcv, response_size, k, resp). response_size - 1 - length resp)")
    (auto simp: Let_def min_def neq_Nil_conv)

declare read_response.simps [simp del]

definition backoff :: "nat \<Rightarrow> nat" where
  "backoff retry = 100000 * 2 ^ retry"

datatype loop_exit = Return dberr_t string | Continue bool

text \<open>One iteration of the request loop from the allocation of the request buffer on.
  \<open>Continue r\<close> goes to the next iteration with \<open>reconnect = r\<close>.\<close>

definition send_and_receive :: "net_env \<Rightarrow> nat \<Rightarrow> nat \<Rightarrow> bool \<Rightarrow> loop_exit" where
  "send_and_receive env response_size retry reconnect =
     (if \<not> request_alloc_ok env retry then Return DB_ERROR []
      else if \<not> send_ok env retry then
        (if retry < MAX_RETRIES then Continue True else Return DB_ERROR [])
      else
        (case read_response (recv_bytes env retry) response_size 0 [] of
           (resp, lost) \<Rightarrow>
             if resp \<noteq> [] \<and>
                (strstr (c_str resp) ''HTTP/1.1 200'' \<noteq> None \<or>
                 strstr (c_str resp) ''HTTP/1.0 200'' \<noteq> None)
             then Return DB_SUCCESS (c_str resp)
             else Continue (if retry < MAX_RETRIES then True else (reconnect \<or> lost))))"

text \<open>The request loop. \<open>sockfd\<close> and \<open>reconnect\<close> are the local variables, \<open>pss\<close> is
  \<^verbatim>\<open>page_server_socket\<close>, \<open>sleeps\<close> the arguments of \<^verbatim>\<open>usleep\<close> so far.\<close>

function http_loop ::
  "net_env \<Rightarrow> nat \<Rightarrow> nat \<Rightarrow> int \<Rightarrow> bool \<Rightarrow> int \<Rightarrow> nat list \<Rightarrow> http_result" where
  "http_loop env response_size retry sockfd reconnect pss sleeps =
     (if retry \<le> MAX_RETRIES then
        (if reconnect \<or> sockfd < 0 then
           (let fd = connect_fd env retry in
            if fd < 0 then
              (if retry < MAX_RETRIES
               then http_loop env response_size (Suc retry) fd reconnect pss
                      (sleeps @ [backoff retry])
               else \<lparr>hr_err = DB_ERROR, hr_response = [], hr_socket = pss,
                     hr_sleeps = sleeps, hr_attempts = Suc retry\<rparr>)
            else
              (case send_and_receive env response_size retry reconnect of
                 Return e r \<Rightarrow>
                   \<lparr>hr_err = e, hr_response = r, hr_socket = fd,
                    hr_sleeps = sleeps, hr_attempts = Suc retry\<rparr>
               | Continue r \<Rightarrow>
                   http_loop env response_size (Suc retry) fd r fd
                     (if retry < MAX_RETRIES then sleeps @ [backoff retry] else sleeps)))
         else
           (case send_and_receive env response_size retry reconnect of
              Return e r \<Rightarrow>
                \<lparr>hr_err = e, hr_response = r, hr_socket = pss,
                 hr_sleeps = sleeps, hr_attempts = Suc retry\<rparr>
            | Continue r \<Rightarrow>
                http_loop env response_size (Suc retry) sockfd r pss
                  (if retry < MAX_RETRIES then sleeps @ [backoff retry] else sleeps)))
      else \<lparr>hr_err = DB_ERROR, hr_response = [], hr_socket = pss,
            hr_sleeps = sleeps, hr_attempts = retry\<rparr>)"
  by pat_completeness auto
termination
  by (relation "measure (\<lambda>(env, response_size, retry, sockfd, reconnect, pss, sleeps).
        Suc MAX_RETRIES - retry)") auto

declare http_loop.simps [simp del]

text \<open>A call either returns, or it leaves what the model describes:
  \<^item> \<open>ReadsPastEnd\<close>: the JSON reader steps over the end of the response text and reads
    on;
  \<^item> \<open>NullHost\<close>: \<^verbatim>\<open>http_request\<close> runs while \<^verbatim>\<open>page_server_host\<close> is null, and
    \<^verbatim>\<open>http_connect\<close> hands the null pointer to \<^verbatim>\<open>gethostbyname\<close>;
  \<^item> \<open>ZeroSizedBuffer\<close>: \<^verbatim>\<open>http_request\<close> runs with a \<open>response_size\<close> of 0, for which
    \<^verbatim>\<open>response_size - 1\<close> wraps around and the copy into \<open>response\<close> is unbounded.\<close>

datatype 'a outcome = Returns 'a | ReadsPastEnd | NullHost | ZeroSizedBuffer

definition and_then :: "'a outcome \<Rightarrow> ('a \<Rightarrow> 'b outcome) \<Rightarrow> 'b outcome" where
  "and_then out f =
     (case out of
        Returns r \<Rightarrow> f r
      | ReadsPastEnd \<Rightarrow> ReadsPastEnd
      | NullHost \<Rightarrow> NullHost
      | ZeroSizedBuffer \<Rightarrow> ZeroSizedBuffer)"

text \<open>\<^verbatim>\<open>http_request\<close>. Its callers pass a \<open>response_size\<close> of 1024 or 65536, and every
  caller runs it with the host set: \<^verbatim>\<open>ping\<close> tests the host, and \<^verbatim>\<open>init\<close> enables the
  client only after it has set the host.\<close>

definition http_request :: "net_env \<Rightarrow> client \<Rightarrow> nat \<Rightarrow> http_result outcome" where
  "http_request env c response_size =
     (if response_size = 0 then ZeroSizedBuffer
      else if page_server_host c = None then NullHost
      else
        (let sockfd = page_server_socket c;
             reconnect = (sockfd < 0 \<or> page_server_host c = None)
         in Returns (http_loop env response_size 0 sockfd reconnect (page_server_socket c) [])))"

subsection \<open>The RPC calls\<close>

text \<open>What a page fetch did: the value returned, the bytes \<^verbatim>\<open>base64_decode\<close> stored in
  \<open>buf\<close>, the value stored in \<^verbatim>\<open>*page_lsn\<close> (\<open>None\<close> when nothing is stored), the call
  of \<^verbatim>\<open>http_request\<close> made (\<open>None\<close> when none is made), and the client's variables
  afterwards.\<close>

record page_result =
  pg_err :: dberr_t
  pg_buf :: "byte list"
  pg_page_lsn :: "lsn_t option"
  pg_io :: "http_result option"
  pg_client :: client

text \<open>\<open>json\<close> points into \<open>response\<close>, and \<open>response\<close> is released before \<open>page_lsn\<close> is
  looked up in \<open>json\<close>: that lookup reads \<open>freed_text env json\<close>.\<close>

definition rpc_get_page ::
  "net_env \<Rightarrow> client \<Rightarrow> 32 word \<Rightarrow> 32 word \<Rightarrow> lsn_t \<Rightarrow> nat \<Rightarrow> page_result outcome" where
  "rpc_get_page env c space_id page_no lsn page_size =
     (if \<not> malloc_ok env AllocResponse then
        Returns \<lparr>pg_err = DB_ERROR, pg_buf = [], pg_page_lsn = None, pg_io = None, pg_client = c\<rparr>
      else
        and_then (http_request env c MAX_RESPONSE_SIZE) (\<lambda>h.
         let c' = c\<lparr>page_server_socket := hr_socket h\<rparr>;
             failed = \<lparr>pg_err = DB_ERROR, pg_buf = [], pg_page_lsn = None, pg_io = Some h,
                       pg_client = c'\<rparr>
         in if hr_err h \<noteq> DB_SUCCESS then Returns (failed\<lparr>pg_err := hr_err h\<rparr>)
            else
              (let json = extract_json_body (hr_response h) in
               case json_get_string json ''status'' 64 of
                 JPastEnd \<Rightarrow> ReadsPastEnd
               | JMissing \<Rightarrow> Returns failed
               | JValue status \<Rightarrow>
                   if status \<noteq> ''success'' then Returns failed
                   else if \<not> malloc_ok env AllocPageData then Returns failed
                   else
                     (case json_get_string json ''page_data'' MAX_RESPONSE_SIZE of
                        JPastEnd \<Rightarrow> ReadsPastEnd
                      | JMissing \<Rightarrow> Returns failed
                      | JValue page_data_b64 \<Rightarrow>
                          (let buf = base64_decode page_data_b64 page_size;
                               decoded_len = length buf
                           in if decoded_len = 0 \<or> page_size < decoded_len
                              then Returns (failed\<lparr>pg_buf := buf\<rparr>)
                              else Returns
                                \<lparr>pg_err = DB_SUCCESS, pg_buf = buf,
                                 pg_page_lsn =
                                   Some (case json_get_uint64 (freed_text env json) ''page_lsn'' of
                                           Some resp_lsn \<Rightarrow> resp_lsn
                                         | None \<Rightarrow> lsn),
                                 pg_io = Some h, pg_client = c'\<rparr>)))))"

record wal_result =
  wl_err :: dberr_t
  wl_io :: "http_result option"
  wl_client :: client

definition rpc_stream_wal ::
  "net_env \<Rightarrow> client \<Rightarrow> lsn_t \<Rightarrow> byte list \<Rightarrow> wal_result outcome" where
  "rpc_stream_wal env c lsn wal_data =
     (if \<not> malloc_ok env AllocWal
      then Returns \<lparr>wl_err = DB_ERROR, wl_io = None, wl_client = c\<rparr>
      else
        and_then (http_request env c 1024) (\<lambda>h.
          Returns \<lparr>wl_err = hr_err h, wl_io = Some h,
                   wl_client = c\<lparr>page_server_socket := hr_socket h\<rparr>\<rparr>))"

subsection \<open>\<^verbatim>\<open>PageServerClient\<close>\<close>

definition is_enabled :: "client \<Rightarrow> bool" where
  "is_enabled c = (page_server_enabled c \<and> page_server_initialized c)"

record ping_result =
  pn_ok :: bool
  pn_io :: "http_result option"
  pn_client :: client

definition ping :: "net_env \<Rightarrow> client \<Rightarrow> ping_result outcome" where
  "ping env c =
     (if \<not> page_server_initialized c
      then Returns \<lparr>pn_ok = False, pn_io = None, pn_client = c\<rparr>
      else if \<not> page_server_enabled c
      then Returns \<lparr>pn_ok = True, pn_io = None, pn_client = c\<rparr>
      else if page_server_host c = None
      then Returns \<lparr>pn_ok = False, pn_io = None, pn_client = c\<rparr>
      else
        and_then (http_request env c 1024) (\<lambda>h.
          Returns \<lparr>pn_ok = (hr_err h = DB_SUCCESS), pn_io = Some h,
                   pn_client = c\<lparr>page_server_socket := hr_socket h\<rparr>\<rparr>))"

text \<open>\<^verbatim>\<open>parse_address\<close> on a non-null address: the host and the port, or \<open>None\<close> when the
  copy cannot be allocated.\<close>

definition parse_address :: "net_env \<Rightarrow> string \<Rightarrow> (string \<times> nat) option" where
  "parse_address env address =
     (if \<not> malloc_ok env AllocAddrCopy then None
      else
        (case strchr address (CHR '':'') of
           Some colon \<Rightarrow>
             (let port = nat (atoi (tl colon) mod 2 ^ 32)
              in Some (takeWhile (\<lambda>x. x \<noteq> CHR '':'') address, if port = 0 then 8080 else port))
         | None \<Rightarrow> Some (address, 8080)))"

text \<open>The variables as \<^verbatim>\<open>init\<close> has set them when it calls \<^verbatim>\<open>ping\<close>.\<close>

definition configured :: "client \<Rightarrow> string \<Rightarrow> string \<Rightarrow> nat \<Rightarrow> client" where
  "configured c address host port =
     c\<lparr>page_server_address := Some address, page_server_host := Some host,
       page_server_port := port, page_server_enabled := True,
       page_server_initialized := True\<rparr>"

record init_result =
  in_ok :: bool
  in_io :: "http_result option"
  in_client :: client

definition init :: "net_env \<Rightarrow> client \<Rightarrow> string option \<Rightarrow> init_result outcome" where
  "init env c address =
     (case address of
        None \<Rightarrow>
          Returns \<lparr>in_ok = True, in_io = None,
            in_client = c\<lparr>page_server_enabled := False, page_server_initialized := True\<rparr>\<rparr>
      | Some a \<Rightarrow>
          if a = [] then
            Returns \<lparr>in_ok = True, in_io = None,
              in_client = c\<lparr>page_server_enabled := False, page_server_initialized := True\<rparr>\<rparr>
          else if \<not> malloc_ok env AllocAddress then
            Returns \<lparr>in_ok = False, in_io = None, in_client = c\<lparr>page_server_address := None\<rparr>\<rparr>
          else
            (case parse_address env a of
               None \<Rightarrow>
                 Returns \<lparr>in_ok = False, in_io = None,
                   in_client = c\<lparr>page_server_address := None\<rparr>\<rparr>
             | Some (host, port) \<Rightarrow>
                 and_then (ping env (configured c a host port)) (\<lambda>p.
                   if \<not> pn_ok p then
                     Returns \<lparr>in_ok = False, in_io = pn_io p,
                       in_client = (pn_client p)\<lparr>page_server_enabled := False,
                                     page_server_address := None, page_server_host := None\<rparr>\<rparr>
                   else Returns \<lparr>in_ok = True, in_io = pn_io p, in_client = pn_client p\<rparr>)))"

definition get_page ::
  "net_env \<Rightarrow> client \<Rightarrow> 32 word \<Rightarrow> 32 word \<Rightarrow> lsn_t \<Rightarrow> nat \<Rightarrow> page_result outcome" where
  "get_page env c space_id page_no lsn page_size =
     (if \<not> is_enabled c then
        Returns \<lparr>pg_err = DB_ERROR, pg_buf = [], pg_page_lsn = None, pg_io = None, pg_client = c\<rparr>
      else rpc_get_page env c space_id page_no lsn page_size)"

definition stream_wal :: "net_env \<Rightarrow> client \<Rightarrow> lsn_t \<Rightarrow> byte list \<Rightarrow> wal_result outcome" where
  "stream_wal env c lsn wal_data =
     (if \<not> is_enabled c then Returns \<lparr>wl_err = DB_SUCCESS, wl_io = None, wl_client = c\<rparr>
      else rpc_stream_wal env c lsn wal_data)"

section \<open>The versioned page index of the specification\<close>

text \<open>The page version index as the specification words it (its section 4.1), for
  comparison with the page map of the server: a key owns a list of versions, each an LSN
  with a page image.\<close>

type_synonym PageVersion = "lsn_t \<times> byte list"

fun newest :: "PageVersion list \<Rightarrow> PageVersion option" where
  "newest [] = None"
| "newest (v # vs) =
     (case newest vs of
        None \<Rightarrow> Some v
      | Some w \<Rightarrow> if fst v \<le> fst w then Some w else Some v)"

text \<open>\<^verbatim>\<open>get(key, lsn)\<close>: the version with the greatest stored LSN at or below \<open>lsn\<close>;
  \<open>None\<close> is \<^verbatim>\<open>NotFound\<close>.\<close>

definition index_get ::
  "(string \<rightharpoonup> PageVersion list) \<Rightarrow> string \<Rightarrow> lsn_t \<Rightarrow> PageVersion option" where
  "index_get idx key lsn =
     (case idx key of
        None \<Rightarrow> None
      | Some vs \<Rightarrow> newest (filter (\<lambda>v. fst v \<le> lsn) vs))"

text \<open>\<^verbatim>\<open>latest(key)\<close>: the most recent version.\<close>

definition index_latest :: "(string \<rightharpoonup> PageVersion list) \<Rightarrow> string \<Rightarrow> PageVersion option" where
  "index_latest idx key = (case idx key of None \<Rightarrow> None | Some vs \<Rightarrow> newest vs)"

text \<open>The server state that holds an index: the page map keeps one image for a key, the
  image of its most recent version.\<close>

definition server_of_index :: "(string \<rightharpoonup> PageVersion list) \<Rightarrow> PageServer" where
  "server_of_index idx =
     \<lparr>pages = (\<lambda>key. map_option snd (index_latest idx key)), walRecords = []\<rparr>"

text \<open>The page data a response delivers: \<open>None\<close> unless its status is \<^verbatim>\<open>success\<close>.\<close>

definition page_payload :: "GetPageResponse http_resp \<Rightarrow> string option" where
  "page_payload resp =
     (case resp of
        HttpError code msg \<Rightarrow> None
      | JsonResp code r \<Rightarrow> if gr_Status r = ''success'' then Some (gr_PageData r) else None)"

section \<open>Example inputs\<close>

text \<open>The StreamWAL and GetPage requests of \<^verbatim>\<open>test_page_server.sh\<close> and \<^verbatim>\<open>API.md\<close>.\<close>

definition wal_request :: "lsn_t \<Rightarrow> StreamWALRequest http_req" where
  "wal_request l =
     \<lparr>verb = POST,
      decoded = Some \<lparr>sw_LSN = l, sw_WALData = ''SGVsbG8gV29ybGQ='',
                       sw_SpaceID = 1, sw_PageNo = 42\<rparr>\<rparr>"

definition hello_world :: "byte list" where
  "hello_world = [0x48, 0x65, 0x6C, 0x6C, 0x6F, 0x20, 0x57, 0x6F, 0x72, 0x6C, 0x64]"

definition page_request :: "lsn_t \<Rightarrow> GetPageRequest http_req" where
  "page_request l =
     \<lparr>verb = POST, decoded = Some \<lparr>gp_SpaceID = 1, gp_PageNo = 42, gp_LSN = l\<rparr>\<rparr>"

text \<open>The client's variables before \<^verbatim>\<open>init\<close>, and after an \<^verbatim>\<open>init\<close> that succeeded for
  the address of the test script.\<close>

definition fresh_client :: client where
  "fresh_client =
     \<lparr>page_server_enabled = False, page_server_initialized = False,
      page_server_address = None, page_server_host = None,
      page_server_port = 8080, page_server_socket = - 1\<rparr>"

definition enabled_client :: client where
  "enabled_client = configured fresh_client ''localhost:8080'' ''localhost'' 8080"

text \<open>The client's variables after an \<^verbatim>\<open>init\<close> whose ping was answered on descriptor 3:
  the socket is kept for the next request.\<close>

definition connected_client :: client where
  "connected_client = enabled_client\<lparr>page_server_socket := 3\<rparr>"

text \<open>A world in which the service cannot be reached: every \<^verbatim>\<open>http_connect\<close> fails, and
  on a socket kept from before \<^verbatim>\<open>send\<close> fails and \<^verbatim>\<open>recv\<close> delivers nothing.\<close>

definition unreachable_env :: net_env where
  "unreachable_env =
     \<lparr>connect_fd = (\<lambda>retry. - 1), request_alloc_ok = (\<lambda>retry. True),
      send_ok = (\<lambda>retry. False), recv_bytes = (\<lambda>retry k. []),
      malloc_ok = (\<lambda>site. True), freed_text = (\<lambda>t. t)\<rparr>"

text \<open>A world in which the service answers the first request with \<open>reply\<close>, delivered by
  the first \<^verbatim>\<open>recv\<close>, and released memory still reads as \<open>after_free\<close> maps it.\<close>

definition replying_env :: "string \<Rightarrow> (string \<Rightarrow> string) \<Rightarrow> net_env" where
  "replying_env reply after_free =
     \<lparr>connect_fd = (\<lambda>retry. 3), request_alloc_ok = (\<lambda>retry. True),
      send_ok = (\<lambda>retry. True), recv_bytes = (\<lambda>retry k. if k = 0 then reply else []),
      malloc_ok = (\<lambda>site. True), freed_text = after_free\<rparr>"

text \<open>A world in which every \<^verbatim>\<open>http_connect\<close> fails, while a socket that is already
  open would carry the request and the answer \<open>reply\<close>.\<close>

definition refusing_env :: "string \<Rightarrow> net_env" where
  "refusing_env reply =
     \<lparr>connect_fd = (\<lambda>retry. - 1), request_alloc_ok = (\<lambda>retry. True),
      send_ok = (\<lambda>retry. True), recv_bytes = (\<lambda>retry k. if k = 0 then reply else []),
      malloc_ok = (\<lambda>site. True), freed_text = (\<lambda>t. t)\<rparr>"

text \<open>The server's answer to a ping.\<close>

definition ping_reply :: string where
  "ping_reply = ''HTTP/1.1 200 OK'' @ crlfcrlf @ ''{\"status\":\"ok\",\"version\":\"1.0.0\"}''"

text \<open>A response with status 200 whose JSON body reports \<^verbatim>\<open>success\<close>, the given page
  data and page LSN 7.\<close>

definition success_reply :: "string \<Rightarrow> string" where
  "success_reply page_data =
     ''HTTP/1.1 200 OK'' @ crlfcrlf @
     ''{\"status\":\"success\",\"page_data\":\"'' @ page_data @ ''\",\"page_lsn\":7}''"

section \<open>Predicates used in the statements\<close>

text \<open>The service is unreachable during a call: every connection attempt of the request
  loop fails, and an attempt made on a socket kept from before either fails to send or
  receives nothing.\<close>

definition unreachable :: "net_env \<Rightarrow> bool" where
  "unreachable env =
     (\<forall>k \<le> MAX_RETRIES. connect_fd env k < 0 \<and> (\<not> send_ok env k \<or> recv_bytes env k 0 = []))"

definition returned :: "'a outcome \<Rightarrow> 'a option" where
  "returned out =
     (case out of
        Returns r \<Rightarrow> Some r
      | ReadsPastEnd \<Rightarrow> None
      | NullHost \<Rightarrow> None
      | ZeroSizedBuffer \<Rightarrow> None)"

text \<open>The number of input positions at which the decoder, started at position \<open>i\<close>, can
  reach its group store: the positions that end a group of four and do not hold the
  padding character.\<close>

fun store_points :: "string \<Rightarrow> nat \<Rightarrow> nat" where
  "store_points [] i = 0"
| "store_points (c # cs) i =
     (if c \<noteq> CHR ''='' \<and> (i + 1) mod 4 = 0 then 1 else 0) + store_points cs (i + 1)"

section \<open>Properties of the page server\<close>

lemma page_key_1_42: "page_key 1 42 = ''1:42''"
  by (simp add: page_key_def decimal.simps)

lemma DecodeString_hello: "DecodeString ''SGVsbG8gV29ybGQ='' = Some hello_world"
  by (simp add: DecodeString_def std_index_def hello_world_def)

lemma EncodeToString_A: "EncodeToString [0x41] = ''QQ==''"
  by (simp add: std_char_def encodeStd_def)

lemma filter_all_below:
  assumes "\<forall>v \<in> set vs. fst v \<le> l"
  shows "filter (\<lambda>v. fst v \<le> l) vs = vs"
  using assms by (induction vs) auto

text \<open>No handler writes the page map: a state in which a page is stored comes from
  outside the three handlers.\<close>

lemma handlers_keep_pages:
  "pages (snd (handleStreamWAL s w)) = pages s"
  "pages (snd (handlePing s v)) = pages s"
  by (simp_all add: handleStreamWAL_def handlePing_def Let_def split: option.splits)

text \<open>Claim C9. Handling a GetPage request leaves the server's state as it was: the page
  map and the list of WAL records are the same after the request as before, whatever
  the verb, whether the body decodes, and whether the page is found.\<close>

theorem handleGetPage_frame:
  "pages (snd (handleGetPage s r)) = pages s \<and>
   walRecords (snd (handleGetPage s r)) = walRecords s"
  by (simp add: handleGetPage_def Let_def split: option.splits)

text \<open>Claim C4, as the server behaves. A StreamWAL request that is accepted is
  acknowledged with \<^verbatim>\<open>success\<close> both times it is handled and leaves the page map as it
  was, but its record is appended to the list of WAL records each time: after the
  duplicate the list ends with two copies.\<close>

theorem duplicate_wal_stored_twice:
  assumes "verb r = POST" and "decoded r = Some req"
    and "DecodeString (sw_WALData req) = Some walData"
  shows "fst (handleStreamWAL (snd (handleStreamWAL s r)) r) = fst (handleStreamWAL s r) \<and>
         fst (handleStreamWAL s r) =
           JsonResp 200 \<lparr>sr_Status = ''success'', sr_LastAppliedLSN = sw_LSN req, sr_Error = []\<rparr> \<and>
         pages (snd (handleStreamWAL (snd (handleStreamWAL s r)) r)) =
           pages (snd (handleStreamWAL s r)) \<and>
         walRecords (snd (handleStreamWAL s r)) =
           walRecords s @ [\<lparr>wr_LSN = sw_LSN req, wr_WALData = walData,
                             wr_SpaceID = sw_SpaceID req, wr_PageNo = sw_PageNo req\<rparr>] \<and>
         walRecords (snd (handleStreamWAL (snd (handleStreamWAL s r)) r)) =
           walRecords (snd (handleStreamWAL s r)) @
             [\<lparr>wr_LSN = sw_LSN req, wr_WALData = walData,
               wr_SpaceID = sw_SpaceID req, wr_PageNo = sw_PageNo req\<rparr>]"
  using assms by (simp add: handleStreamWAL_def)

text \<open>The theorem at the request of the test script, sent twice to a new server.\<close>

theorem duplicate_wal_stored_twice_witness:
  "walRecords (snd (handleStreamWAL (snd (handleStreamWAL NewPageServer (wal_request 1000)))
                      (wal_request 1000))) =
     [\<lparr>wr_LSN = 1000, wr_WALData = hello_world, wr_SpaceID = 1, wr_PageNo = 42\<rparr>,
      \<lparr>wr_LSN = 1000, wr_WALData = hello_world, wr_SpaceID = 1, wr_PageNo = 42\<rparr>]"
  using duplicate_wal_stored_twice [of "wal_request 1000"
      "\<lparr>sw_LSN = 1000, sw_WALData = ''SGVsbG8gV29ybGQ='', sw_SpaceID = 1, sw_PageNo = 42\<rparr>"
      hello_world NewPageServer]
  by (simp add: wal_request_def DecodeString_hello NewPageServer_def)

text \<open>Claim C4 as stated fails: after the same record is processed twice, the stored WAL
  records differ from those after processing it once.\<close>

theorem duplicate_wal_counterexample:
  "walRecords (snd (handleStreamWAL (snd (handleStreamWAL NewPageServer (wal_request 1000)))
                      (wal_request 1000)))
   \<noteq> walRecords (snd (handleStreamWAL NewPageServer (wal_request 1000)))"
  by (simp add: handleStreamWAL_def NewPageServer_def wal_request_def DecodeString_hello)

text \<open>Claim C3, as the server behaves. The server keeps no applied watermark. When a
  StreamWAL request is acknowledged, the acknowledgement is a \<^verbatim>\<open>success\<close>, the request's
  record has been appended to the stored WAL records, the reported
  \<^verbatim>\<open>last_applied_lsn\<close> is the LSN of that stored record, and the page map is as it was:
  the record is stored, not applied.\<close>

theorem stream_wal_ack_names_stored_record:
  assumes "handleStreamWAL s r = (JsonResp code resp, s')"
  shows "code = 200 \<and> sr_Status resp = ''success'' \<and>
         walRecords s' = walRecords s @ [last (walRecords s')] \<and>
         sr_LastAppliedLSN resp = wr_LSN (last (walRecords s')) \<and>
         pages s' = pages s"
  using assms
  by (auto simp: handleStreamWAL_def Let_def split: if_splits option.splits)

text \<open>The theorem at the request of the test script, sent to a new server.\<close>

theorem stream_wal_ack_names_stored_record_witness:
  "handleStreamWAL NewPageServer (wal_request 1000) =
     (JsonResp 200 \<lparr>sr_Status = ''success'', sr_LastAppliedLSN = 1000, sr_Error = []\<rparr>,
      \<lparr>pages = Map.empty,
       walRecords = [\<lparr>wr_LSN = 1000, wr_WALData = hello_world, wr_SpaceID = 1, wr_PageNo = 42\<rparr>]\<rparr>) \<and>
   sr_LastAppliedLSN \<lparr>sr_Status = ''success'', sr_LastAppliedLSN = 1000, sr_Error = []\<rparr> =
     wr_LSN (last (walRecords
       \<lparr>pages = Map.empty,
        walRecords = [\<lparr>wr_LSN = 1000, wr_WALData = hello_world, wr_SpaceID = 1, wr_PageNo = 42\<rparr>]\<rparr>)) \<and>
   pages
     \<lparr>pages = Map.empty,
      walRecords = [\<lparr>wr_LSN = 1000, wr_WALData = hello_world, wr_SpaceID = 1, wr_PageNo = 42\<rparr>]\<rparr>
     = pages NewPageServer"
proof -
  have run: "handleStreamWAL NewPageServer (wal_request 1000) =
     (JsonResp 200 \<lparr>sr_Status = ''success'', sr_LastAppliedLSN = 1000, sr_Error = []\<rparr>,
      \<lparr>pages = Map.empty,
       walRecords = [\<lparr>wr_LSN = 1000, wr_WALData = hello_world, wr_SpaceID = 1, wr_PageNo = 42\<rparr>]\<rparr>)"
    by (simp add: handleStreamWAL_def wal_request_def DecodeString_hello NewPageServer_def)
  from stream_wal_ack_names_stored_record [OF run] run show ?thesis
    by blast
qed

text \<open>Claim C3 as stated fails: a request with LSN 1000 followed by one with LSN 5 is
  acknowledged with \<^verbatim>\<open>last_applied_lsn\<close> 1000 and then 5, so the reported value
  decreases; and the page map is empty after both, so no record has been applied to
  the page store when 1000 is reported as applied.\<close>

theorem watermark_counterexample:
  "fst (handleStreamWAL NewPageServer (wal_request 1000)) =
     JsonResp 200 \<lparr>sr_Status = ''success'', sr_LastAppliedLSN = 1000, sr_Error = []\<rparr> \<and>
   fst (handleStreamWAL (snd (handleStreamWAL NewPageServer (wal_request 1000))) (wal_request 5)) =
     JsonResp 200 \<lparr>sr_Status = ''success'', sr_LastAppliedLSN = 5, sr_Error = []\<rparr> \<and>
   pages (snd (handleStreamWAL (snd (handleStreamWAL NewPageServer (wal_request 1000)))
                 (wal_request 5))) = Map.empty"
  by (simp add: handleStreamWAL_def NewPageServer_def wal_request_def DecodeString_hello)

text \<open>Claim C2, as the server behaves. The page map keeps one image for a key and the
  read does not consult the requested LSN: the page data delivered is the stored image
  of the key, whatever the LSN. A key with no stored image gets the 404 response with
  status \<^verbatim>\<open>error\<close>, the text \<^verbatim>\<open>Page not found\<close> and no page data. Against the
  versioned index of the specification, the server holding the most recent image of
  every key, the read agrees with
  \<^verbatim>\<open>get(key, lsn)\<close> whenever no version of the key is above the requested LSN.\<close>

theorem get_page_returns_stored_image:
  "page_payload (fst (handleGetPage s \<lparr>verb = POST, decoded = Some req\<rparr>)) =
     map_option EncodeToString (pages s (page_key (gp_SpaceID req) (gp_PageNo req))) \<and>
   (pages s (page_key (gp_SpaceID req) (gp_PageNo req)) = None \<longrightarrow>
      fst (handleGetPage s \<lparr>verb = POST, decoded = Some req\<rparr>) =
        JsonResp 404
          \<lparr>gr_Status = ''error'', gr_PageData = [], gr_PageLSN = 0,
           gr_Error = ''Page not found: space='' @ decimal (unat (gp_SpaceID req))
                      @ '' page='' @ decimal (unat (gp_PageNo req))\<rparr>) \<and>
   ((\<forall>v \<in> set (case idx (page_key (gp_SpaceID req) (gp_PageNo req)) of
                   None \<Rightarrow> [] | Some vs \<Rightarrow> vs). fst v \<le> gp_LSN req) \<longrightarrow>
      page_payload (fst (handleGetPage (server_of_index idx) \<lparr>verb = POST, decoded = Some req\<rparr>)) =
        map_option (\<lambda>v. EncodeToString (snd v))
          (index_get idx (page_key (gp_SpaceID req) (gp_PageNo req)) (gp_LSN req)))"
proof (intro conjI impI)
  show "page_payload (fst (handleGetPage s \<lparr>verb = POST, decoded = Some req\<rparr>)) =
     map_option EncodeToString (pages s (page_key (gp_SpaceID req) (gp_PageNo req)))"
    by (simp add: handleGetPage_def page_payload_def Let_def split: option.splits)
next
  assume "pages s (page_key (gp_SpaceID req) (gp_PageNo req)) = None"
  then show "fst (handleGetPage s \<lparr>verb = POST, decoded = Some req\<rparr>) =
        JsonResp 404
          \<lparr>gr_Status = ''error'', gr_PageData = [], gr_PageLSN = 0,
           gr_Error = ''Page not found: space='' @ decimal (unat (gp_SpaceID req))
                      @ '' page='' @ decimal (unat (gp_PageNo req))\<rparr>"
    by (simp add: handleGetPage_def Let_def)
next
  let ?key = "page_key (gp_SpaceID req) (gp_PageNo req)"
  assume below: "\<forall>v \<in> set (case idx ?key of None \<Rightarrow> [] | Some vs \<Rightarrow> vs). fst v \<le> gp_LSN req"
  have "index_get idx ?key (gp_LSN req) = index_latest idx ?key"
  proof (cases "idx ?key")
    case None
    then show ?thesis by (simp add: index_get_def index_latest_def)
  next
    case (Some vs)
    with below have "filter (\<lambda>v. fst v \<le> gp_LSN req) vs = vs"
      by (simp add: filter_all_below)
    with Some show ?thesis by (simp add: index_get_def index_latest_def)
  qed
  then show "page_payload (fst (handleGetPage (server_of_index idx) \<lparr>verb = POST, decoded = Some req\<rparr>)) =
        map_option (\<lambda>v. EncodeToString (snd v)) (index_get idx ?key (gp_LSN req))"
    by (simp add: handleGetPage_def page_payload_def server_of_index_def Let_def
        split: option.splits)
qed

text \<open>The theorem at the page of test script and \<^verbatim>\<open>API.md\<close>: stored with one version
  at LSN 10 and read at LSN 10, and read from a new server, which stores no page.\<close>

theorem get_page_returns_stored_image_witness:
  "page_payload (fst (handleGetPage (server_of_index [''1:42'' \<mapsto> [(10, [0x41])]]) (page_request 10)))
     = Some ''QQ=='' \<and>
   index_get [''1:42'' \<mapsto> [(10, [0x41])]] ''1:42'' 10 = Some (10, [0x41]) \<and>
   fst (handleGetPage NewPageServer (page_request 10)) =
     JsonResp 404 \<lparr>gr_Status = ''error'', gr_PageData = [], gr_PageLSN = 0,
                   gr_Error = ''Page not found: space=1 page=42''\<rparr>"
  using get_page_returns_stored_image [of "server_of_index [''1:42'' \<mapsto> [(10, [0x41])]]"
      "\<lparr>gp_SpaceID = 1, gp_PageNo = 42, gp_LSN = 10\<rparr>" "[''1:42'' \<mapsto> [(10, [0x41])]]"]
    get_page_returns_stored_image [of NewPageServer
      "\<lparr>gp_SpaceID = 1, gp_PageNo = 42, gp_LSN = 10\<rparr>" "Map.empty"]
  by (simp add: page_request_def page_key_1_42 index_get_def server_of_index_def
      index_latest_def std_char_def encodeStd_def NewPageServer_def handleGetPage_def
      decimal.simps)

text \<open>Claim C2 as stated fails: with one version of the page stored, at LSN 10, a read at
  LSN 5 has no version at or below it, so \<^verbatim>\<open>get\<close> is \<^verbatim>\<open>NotFound\<close>; the server answers
  \<^verbatim>\<open>success\<close> with the page data.\<close>

theorem versioned_read_counterexample:
  "index_get [''1:42'' \<mapsto> [(10, [0x41])]] ''1:42'' 5 = None \<and>
   page_payload (fst (handleGetPage (server_of_index [''1:42'' \<mapsto> [(10, [0x41])]]) (page_request 5)))
     = Some ''QQ==''"
  by (simp add: index_get_def handleGetPage_def server_of_index_def index_latest_def
      page_request_def page_key_1_42 page_payload_def std_char_def encodeStd_def)

section \<open>Properties of the client\<close>

subsection \<open>The request loop\<close>

lemma read_response_nothing: "rcv 0 = [] \<Longrightarrow> read_response rcv rs 0 [] = ([], rs \<noteq> 0 \<and> rs \<noteq> 1)"
  by (subst read_response.simps) (auto simp: Let_def)

lemma send_and_receive_unreachable:
  assumes "\<not> send_ok env k \<or> recv_bytes env k 0 = []"
  shows "send_and_receive env rs k rc \<noteq> Return DB_SUCCESS resp"
  using assms
  by (auto simp: send_and_receive_def read_response_nothing split: prod.splits if_splits)

lemma send_and_receive_continue:
  assumes "send_and_receive env rs k rc = Continue r" and "k < MAX_RETRIES"
  shows "r"
  using assms by (auto simp: send_and_receive_def split: prod.splits if_splits)

lemma send_and_receive_error:
  assumes "send_and_receive env rs k rc = Return DB_ERROR r" and "request_alloc_ok env k"
  shows "\<not> k < MAX_RETRIES"
  using assms by (auto simp: send_and_receive_def split: prod.splits if_splits)

lemma http_loop_after: "http_loop env rs (Suc MAX_RETRIES) fd rc pss sl =
    \<lparr>hr_err = DB_ERROR, hr_response = [], hr_socket = pss, hr_sleeps = sl,
     hr_attempts = Suc MAX_RETRIES\<rparr>"
  by (subst http_loop.simps) simp

text \<open>One iteration of the request loop, as a rule: the loop either returns in this
  iteration, after a failed last connection attempt or with what \<open>send_and_receive\<close>
  returns, or goes on to the next iteration, which connects anew unless this was the
  last one.\<close>

lemma http_loop_cases:
  assumes "retry \<le> MAX_RETRIES"
    and ret: "\<And>e r sock.
      (retry = MAX_RETRIES \<and> e = DB_ERROR \<and> (rc \<or> fd < 0) \<and> connect_fd env retry < 0) \<or>
      (((rc \<or> fd < 0) \<longrightarrow> 0 \<le> connect_fd env retry) \<and>
       send_and_receive env rs retry rc = Return e r) \<Longrightarrow>
      P \<lparr>hr_err = e, hr_response = r, hr_socket = sock, hr_sleeps = sl,
         hr_attempts = Suc retry\<rparr>"
    and cont: "\<And>fd' rc' pss'.
      (retry < MAX_RETRIES \<longrightarrow> rc' \<or> fd' < 0) \<Longrightarrow>
      P (http_loop env rs (Suc retry) fd' rc' pss'
           (if retry < MAX_RETRIES then sl @ [backoff retry] else sl))"
  shows "P (http_loop env rs retry fd rc pss sl)"
proof (cases "rc \<or> fd < 0")
  case True
  show ?thesis
  proof (cases "connect_fd env retry < 0")
    case cf: True
    show ?thesis
    proof (cases "retry < MAX_RETRIES")
      case lt: True
      have "http_loop env rs retry fd rc pss sl =
          http_loop env rs (Suc retry) (connect_fd env retry) rc pss (sl @ [backoff retry])"
        using True cf lt assms(1) by (subst http_loop.simps) (simp add: Let_def)
      with cont [of rc "connect_fd env retry" pss] lt cf show ?thesis by simp
    next
      case ge: False
      with assms(1) have last: "retry = MAX_RETRIES" by simp
      have "http_loop env rs retry fd rc pss sl =
          \<lparr>hr_err = DB_ERROR, hr_response = [], hr_socket = pss, hr_sleeps = sl,
           hr_attempts = Suc retry\<rparr>"
        using True cf ge assms(1) by (subst http_loop.simps) (simp add: Let_def)
      with ret [of DB_ERROR "[]" pss] last True cf show ?thesis by simp
    qed
  next
    case cs: False
    show ?thesis
    proof (cases "send_and_receive env rs retry rc")
      case (Return e r)
      have "http_loop env rs retry fd rc pss sl =
          \<lparr>hr_err = e, hr_response = r, hr_socket = connect_fd env retry, hr_sleeps = sl,
           hr_attempts = Suc retry\<rparr>"
        using True cs Return assms(1) by (subst http_loop.simps) (simp add: Let_def)
      with ret [of e r "connect_fd env retry"] Return cs show ?thesis by simp
    next
      case (Continue r)
      have "http_loop env rs retry fd rc pss sl =
          http_loop env rs (Suc retry) (connect_fd env retry) r (connect_fd env retry)
            (if retry < MAX_RETRIES then sl @ [backoff retry] else sl)"
        using True cs Continue assms(1) by (subst http_loop.simps) (simp add: Let_def)
      moreover have "retry < MAX_RETRIES \<longrightarrow> r \<or> connect_fd env retry < 0"
        using send_and_receive_continue [OF Continue] by blast
      ultimately show ?thesis
        using cont [of r "connect_fd env retry" "connect_fd env retry"] by simp
    qed
  qed
next
  case False
  show ?thesis
  proof (cases "send_and_receive env rs retry rc")
    case (Return e r)
    have "http_loop env rs retry fd rc pss sl =
        \<lparr>hr_err = e, hr_response = r, hr_socket = pss, hr_sleeps = sl,
         hr_attempts = Suc retry\<rparr>"
      using False Return assms(1) by (subst http_loop.simps) (simp add: Let_def)
    with ret [of e r pss] Return False show ?thesis by simp
  next
    case (Continue r)
    have "http_loop env rs retry fd rc pss sl =
        http_loop env rs (Suc retry) fd r pss
          (if retry < MAX_RETRIES then sl @ [backoff retry] else sl)"
      using False Continue assms(1) by (subst http_loop.simps) (simp add: Let_def)
    moreover have "retry < MAX_RETRIES \<longrightarrow> r \<or> fd < 0"
      using send_and_receive_continue [OF Continue] by blast
    ultimately show ?thesis using cont [of r fd pss] by simp
  qed
qed

lemma http_loop_bounds:
  assumes "retry \<le> MAX_RETRIES"
  shows "Suc retry \<le> hr_attempts (http_loop env rs retry fd rc pss sl) \<and>
         hr_attempts (http_loop env rs retry fd rc pss sl) \<le> Suc MAX_RETRIES \<and>
         hr_sleeps (http_loop env rs retry fd rc pss sl) =
           sl @ map backoff [retry ..< hr_attempts (http_loop env rs retry fd rc pss sl) - 1]"
  using assms
proof (induction "MAX_RETRIES - retry" arbitrary: retry fd rc pss sl)
  case 0
  then have eq: "retry = MAX_RETRIES" by simp
  show ?case
    by (rule http_loop_cases) (simp_all add: eq http_loop_after)
next
  case (Suc n)
  then have lt: "retry < MAX_RETRIES" and n: "n = MAX_RETRIES - Suc retry"
    and le: "Suc retry \<le> MAX_RETRIES" by simp_all
  show ?case
  proof (rule http_loop_cases)
    show "retry \<le> MAX_RETRIES" using lt by simp
  next
    fix e r sock
    show "Suc retry \<le> hr_attempts \<lparr>hr_err = e, hr_response = r, hr_socket = sock,
              hr_sleeps = sl, hr_attempts = Suc retry\<rparr> \<and>
          hr_attempts \<lparr>hr_err = e, hr_response = r, hr_socket = sock,
              hr_sleeps = sl, hr_attempts = Suc retry\<rparr> \<le> Suc MAX_RETRIES \<and>
          hr_sleeps \<lparr>hr_err = e, hr_response = r, hr_socket = sock,
              hr_sleeps = sl, hr_attempts = Suc retry\<rparr> =
            sl @ map backoff [retry ..< hr_attempts \<lparr>hr_err = e, hr_response = r,
              hr_socket = sock, hr_sleeps = sl, hr_attempts = Suc retry\<rparr> - 1]"
      using lt by simp
  next
    fix fd' rc' pss'
    let ?h = "http_loop env rs (Suc retry) fd' rc' pss' (sl @ [backoff retry])"
    have ih: "Suc (Suc retry) \<le> hr_attempts ?h \<and> hr_attempts ?h \<le> Suc MAX_RETRIES \<and>
        hr_sleeps ?h = (sl @ [backoff retry]) @ map backoff [Suc retry ..< hr_attempts ?h - 1]"
      by (rule Suc.hyps(1) [OF n le])
    then have "Suc (Suc retry) \<le> hr_attempts ?h" by blast
    then have "retry < hr_attempts ?h - 1" by arith
    then have "[retry ..< hr_attempts ?h - 1] = retry # [Suc retry ..< hr_attempts ?h - 1]"
      by (rule upt_conv_Cons)
    with ih have "Suc retry \<le> hr_attempts ?h \<and> hr_attempts ?h \<le> Suc MAX_RETRIES \<and>
        hr_sleeps ?h = sl @ map backoff [retry ..< hr_attempts ?h - 1]"
      by simp
    then show "Suc retry \<le> hr_attempts (http_loop env rs (Suc retry) fd' rc' pss'
            (if retry < MAX_RETRIES then sl @ [backoff retry] else sl)) \<and>
        hr_attempts (http_loop env rs (Suc retry) fd' rc' pss'
            (if retry < MAX_RETRIES then sl @ [backoff retry] else sl)) \<le> Suc MAX_RETRIES \<and>
        hr_sleeps (http_loop env rs (Suc retry) fd' rc' pss'
            (if retry < MAX_RETRIES then sl @ [backoff retry] else sl)) =
          sl @ map backoff [retry ..< hr_attempts (http_loop env rs (Suc retry) fd' rc' pss'
            (if retry < MAX_RETRIES then sl @ [backoff retry] else sl)) - 1]"
      using lt by simp
  qed
qed

text \<open>The loop fails when, in every iteration from \<open>retry\<close> on, either the connection
  attempt is made and fails, or sending and receiving cannot return a success. The
  iterations after \<open>retry\<close> always connect anew; iteration \<open>retry\<close> does when \<open>rc\<close> is set
  or \<open>fd\<close> is no socket.\<close>

lemma http_loop_fails:
  assumes "retry \<le> MAX_RETRIES"
    and "\<forall>k \<le> MAX_RETRIES. retry \<le> k \<longrightarrow>
           ((retry < k \<or> rc \<or> fd < 0) \<and> connect_fd env k < 0) \<or>
           (\<forall>rc' resp. send_and_receive env rs k rc' \<noteq> Return DB_SUCCESS resp)"
  shows "hr_err (http_loop env rs retry fd rc pss sl) = DB_ERROR"
  using assms
proof (induction "MAX_RETRIES - retry" arbitrary: retry fd rc pss sl)
  case 0
  then have eq: "retry = MAX_RETRIES" by simp
  show ?case
  proof (rule http_loop_cases)
    show "retry \<le> MAX_RETRIES" using eq by simp
  next
    fix e r sock
    assume "(retry = MAX_RETRIES \<and> e = DB_ERROR \<and> (rc \<or> fd < 0) \<and> connect_fd env retry < 0) \<or>
      (((rc \<or> fd < 0) \<longrightarrow> 0 \<le> connect_fd env retry) \<and>
       send_and_receive env rs retry rc = Return e r)"
    moreover have "((rc \<or> fd < 0) \<and> connect_fd env retry < 0) \<or>
        (\<forall>rc' resp. send_and_receive env rs retry rc' \<noteq> Return DB_SUCCESS resp)"
      using spec [OF "0.prems"(2), of retry] eq by simp
    ultimately have "e \<noteq> DB_SUCCESS" by fastforce
    then show "hr_err \<lparr>hr_err = e, hr_response = r, hr_socket = sock, hr_sleeps = sl,
        hr_attempts = Suc retry\<rparr> = DB_ERROR"
      by (cases e) simp_all
  next
    fix fd' rc' pss'
    show "hr_err (http_loop env rs (Suc retry) fd' rc' pss'
        (if retry < MAX_RETRIES then sl @ [backoff retry] else sl)) = DB_ERROR"
      by (simp add: eq http_loop_after)
  qed
next
  case (Suc n)
  then have lt: "retry < MAX_RETRIES" and n: "n = MAX_RETRIES - Suc retry"
    and le: "Suc retry \<le> MAX_RETRIES" by simp_all
  show ?case
  proof (rule http_loop_cases)
    show "retry \<le> MAX_RETRIES" using lt by simp
  next
    fix e r sock
    assume "(retry = MAX_RETRIES \<and> e = DB_ERROR \<and> (rc \<or> fd < 0) \<and> connect_fd env retry < 0) \<or>
      (((rc \<or> fd < 0) \<longrightarrow> 0 \<le> connect_fd env retry) \<and>
       send_and_receive env rs retry rc = Return e r)"
    moreover have "((rc \<or> fd < 0) \<and> connect_fd env retry < 0) \<or>
        (\<forall>rc' resp. send_and_receive env rs retry rc' \<noteq> Return DB_SUCCESS resp)"
      using spec [OF Suc.prems(2), of retry] lt by simp
    ultimately have "e \<noteq> DB_SUCCESS" by fastforce
    then show "hr_err \<lparr>hr_err = e, hr_response = r, hr_socket = sock, hr_sleeps = sl,
        hr_attempts = Suc retry\<rparr> = DB_ERROR"
      by (cases e) simp_all
  next
    fix fd' :: int and rc' pss'
    assume next_connects: "retry < MAX_RETRIES \<longrightarrow> rc' \<or> fd' < 0"
    have "\<forall>k \<le> MAX_RETRIES. Suc retry \<le> k \<longrightarrow>
           ((Suc retry < k \<or> rc' \<or> fd' < 0) \<and> connect_fd env k < 0) \<or>
           (\<forall>rc'' resp. send_and_receive env rs k rc'' \<noteq> Return DB_SUCCESS resp)"
    proof (intro allI impI)
      fix k
      assume k: "k \<le> MAX_RETRIES" "Suc retry \<le> k"
      then have "((retry < k \<or> rc \<or> fd < 0) \<and> connect_fd env k < 0) \<or>
           (\<forall>rc' resp. send_and_receive env rs k rc' \<noteq> Return DB_SUCCESS resp)"
        using spec [OF Suc.prems(2), of k] by simp
      with next_connects lt
      show "((Suc retry < k \<or> rc' \<or> fd' < 0) \<and> connect_fd env k < 0) \<or>
           (\<forall>rc'' resp. send_and_receive env rs k rc'' \<noteq> Return DB_SUCCESS resp)"
        by blast
    qed
    from Suc.hyps(1) [OF n le this]
    show "hr_err (http_loop env rs (Suc retry) fd' rc' pss'
        (if retry < MAX_RETRIES then sl @ [backoff retry] else sl)) = DB_ERROR"
      .
  qed
qed

text \<open>While the request buffers can be allocated, the loop returns an error only from
  its last iteration.\<close>

lemma http_loop_error_exhausted:
  assumes "retry \<le> MAX_RETRIES"
    and "\<forall>k \<le> MAX_RETRIES. request_alloc_ok env k"
    and "hr_err (http_loop env rs retry fd rc pss sl) = DB_ERROR"
  shows "hr_attempts (http_loop env rs retry fd rc pss sl) = Suc MAX_RETRIES"
proof -
  have "hr_err (http_loop env rs retry fd rc pss sl) = DB_ERROR \<longrightarrow>
      hr_attempts (http_loop env rs retry fd rc pss sl) = Suc MAX_RETRIES"
    using assms(1,2)
  proof (induction "MAX_RETRIES - retry" arbitrary: retry fd rc pss sl)
    case 0
    then have eq: "retry = MAX_RETRIES" by simp
    show ?case
      by (rule http_loop_cases) (simp_all add: eq http_loop_after)
  next
    case (Suc n)
    then have lt: "retry < MAX_RETRIES" and n: "n = MAX_RETRIES - Suc retry"
      and le: "Suc retry \<le> MAX_RETRIES" by simp_all
    show ?case
    proof (rule http_loop_cases)
      show "retry \<le> MAX_RETRIES" using lt by simp
    next
      fix e r sock
      assume "(retry = MAX_RETRIES \<and> e = DB_ERROR \<and> (rc \<or> fd < 0) \<and> connect_fd env retry < 0) \<or>
        (((rc \<or> fd < 0) \<longrightarrow> 0 \<le> connect_fd env retry) \<and>
         send_and_receive env rs retry rc = Return e r)"
      with lt have sr: "send_and_receive env rs retry rc = Return e r" by auto
      have "request_alloc_ok env retry" using Suc.prems(2) lt by simp
      with sr lt have "e \<noteq> DB_ERROR"
        using send_and_receive_error [of env rs retry rc r] by auto
      then show "hr_err \<lparr>hr_err = e, hr_response = r, hr_socket = sock, hr_sleeps = sl,
            hr_attempts = Suc retry\<rparr> = DB_ERROR \<longrightarrow>
          hr_attempts \<lparr>hr_err = e, hr_response = r, hr_socket = sock, hr_sleeps = sl,
            hr_attempts = Suc retry\<rparr> = Suc MAX_RETRIES"
        by simp
    next
      fix fd' rc' pss'
      from Suc.hyps(1) [OF n le Suc.prems(2)]
      show "hr_err (http_loop env rs (Suc retry) fd' rc' pss'
            (if retry < MAX_RETRIES then sl @ [backoff retry] else sl)) = DB_ERROR \<longrightarrow>
          hr_attempts (http_loop env rs (Suc retry) fd' rc' pss'
            (if retry < MAX_RETRIES then sl @ [backoff retry] else sl)) = Suc MAX_RETRIES"
        .
    qed
  qed
  with assms(3) show ?thesis by simp
qed

lemma http_request_returns:
  assumes "page_server_host c \<noteq> None" and "rs \<noteq> 0"
  shows "http_request env c rs =
     Returns (http_loop env rs 0 (page_server_socket c) (page_server_socket c < 0)
                (page_server_socket c) [])"
  using assms by (auto simp: http_request_def Let_def)

lemma unreachable_no_success:
  assumes "unreachable env"
  shows "\<forall>k \<le> MAX_RETRIES. \<forall>rc' resp. send_and_receive env rs k rc' \<noteq> Return DB_SUCCESS resp"
proof (intro allI impI)
  fix k rc' resp
  assume "k \<le> MAX_RETRIES"
  with assms have "\<not> send_ok env k \<or> recv_bytes env k 0 = []"
    by (simp add: unreachable_def)
  then show "send_and_receive env rs k rc' \<noteq> Return DB_SUCCESS resp"
    by (rule send_and_receive_unreachable)
qed

lemma http_loop_unreachable:
  assumes "unreachable env"
  shows "hr_err (http_loop env rs 0 fd rc pss sl) = DB_ERROR"
  by (rule http_loop_fails) (use unreachable_no_success [OF assms] in auto)

lemma unreachable_unreachable_env: "unreachable unreachable_env"
  by (simp add: unreachable_def unreachable_env_def)

lemma malloc_ok_unreachable_env: "malloc_ok unreachable_env site"
  by (simp add: unreachable_env_def)

lemma request_alloc_ok_unreachable_env: "request_alloc_ok unreachable_env k"
  by (simp add: unreachable_env_def)

lemma is_enabled_enabled_client: "is_enabled enabled_client"
  by (simp add: is_enabled_def enabled_client_def configured_def)

lemma is_enabled_connected_client: "is_enabled connected_client"
  by (simp add: is_enabled_def connected_client_def enabled_client_def configured_def)

lemma host_enabled_client: "page_server_host enabled_client = Some ''localhost''"
  by (simp add: enabled_client_def configured_def)

lemma host_connected_client: "page_server_host connected_client = Some ''localhost''"
  by (simp add: connected_client_def enabled_client_def configured_def)

lemma http_request_unreachable_enabled:
  "http_request unreachable_env enabled_client 1024 =
     Returns \<lparr>hr_err = DB_ERROR, hr_response = [], hr_socket = - 1,
              hr_sleeps = [100000, 200000], hr_attempts = 3\<rparr>"
  by (simp add: http_request_def http_loop.simps unreachable_env_def enabled_client_def
      configured_def fresh_client_def MAX_RETRIES_def backoff_def)

lemma http_request_unreachable_connected:
  "http_request unreachable_env connected_client 1024 =
     Returns \<lparr>hr_err = DB_ERROR, hr_response = [], hr_socket = 3,
              hr_sleeps = [100000, 200000], hr_attempts = 3\<rparr>"
  by (simp add: http_request_def http_loop.simps send_and_receive_def unreachable_env_def
      connected_client_def enabled_client_def configured_def fresh_client_def MAX_RETRIES_def
      backoff_def)

lemma refusing_no_connection:
  "\<forall>k \<le> MAX_RETRIES.
     ((0 < k \<or> page_server_socket enabled_client < 0) \<and> connect_fd (refusing_env reply) k < 0) \<or>
     (\<forall>rc resp. send_and_receive (refusing_env reply) 1024 k rc \<noteq> Return DB_SUCCESS resp)"
  by (simp add: refusing_env_def enabled_client_def configured_def fresh_client_def)

text \<open>Claim C8. For a client whose host is set, as every caller of \<^verbatim>\<open>http_request\<close>
  has it, and a response buffer that is not empty, the call returns. The request
  loop, through which every network operation of the client goes, is entered at least
  once and at most \<open>MAX_RETRIES + 1\<close> times; before the retry after iteration \<open>k\<close> it
  sleeps \<open>100000 * 2 ^ k\<close> microseconds, so the delay doubles with each retry. The call
  returns \<^verbatim>\<open>DB_ERROR\<close> when in every iteration either the connection attempt fails or no
  response with status 200 is obtained, and while the request buffers can be allocated
  it returns \<^verbatim>\<open>DB_ERROR\<close> only after all \<open>MAX_RETRIES + 1\<close> iterations. The function
  is total: the loop and the read loop inside it are defined with their termination
  proofs.\<close>

theorem http_request_bounded:
  assumes "page_server_host c \<noteq> None" and "response_size \<noteq> 0"
  shows "\<exists>h. http_request env c response_size = Returns h \<and>
     1 \<le> hr_attempts h \<and> hr_attempts h \<le> MAX_RETRIES + 1 \<and>
     hr_sleeps h = map (\<lambda>k. 100000 * 2 ^ k) [0 ..< hr_attempts h - 1] \<and>
     ((\<forall>k \<le> MAX_RETRIES.
         ((0 < k \<or> page_server_socket c < 0) \<and> connect_fd env k < 0) \<or>
         (\<forall>rc resp. send_and_receive env response_size k rc \<noteq> Return DB_SUCCESS resp)) \<longrightarrow>
        hr_err h = DB_ERROR) \<and>
     (hr_err h = DB_ERROR \<and> (\<forall>k \<le> MAX_RETRIES. request_alloc_ok env k) \<longrightarrow>
        hr_attempts h = MAX_RETRIES + 1)"
proof -
  let ?sockfd = "page_server_socket c"
  let ?h = "http_loop env response_size 0 ?sockfd (?sockfd < 0) ?sockfd []"
  have eq: "http_request env c response_size = Returns ?h"
    using assms by (rule http_request_returns)
  have b: "Suc 0 \<le> hr_attempts ?h \<and> hr_attempts ?h \<le> Suc MAX_RETRIES \<and>
      hr_sleeps ?h = [] @ map backoff [0 ..< hr_attempts ?h - 1]"
    by (rule http_loop_bounds) simp
  have bo: "backoff = (\<lambda>k. 100000 * 2 ^ k)"
    by (rule ext) (simp add: backoff_def)
  have f: "(\<forall>k \<le> MAX_RETRIES.
         ((0 < k \<or> page_server_socket c < 0) \<and> connect_fd env k < 0) \<or>
         (\<forall>rc resp. send_and_receive env response_size k rc \<noteq> Return DB_SUCCESS resp)) \<longrightarrow>
      hr_err ?h = DB_ERROR"
  proof
    assume "\<forall>k \<le> MAX_RETRIES.
         ((0 < k \<or> page_server_socket c < 0) \<and> connect_fd env k < 0) \<or>
         (\<forall>rc resp. send_and_receive env response_size k rc \<noteq> Return DB_SUCCESS resp)"
    then have "\<forall>k \<le> MAX_RETRIES. 0 \<le> k \<longrightarrow>
         ((0 < k \<or> ?sockfd < 0 \<or> ?sockfd < 0) \<and> connect_fd env k < 0) \<or>
         (\<forall>rc' resp. send_and_receive env response_size k rc' \<noteq> Return DB_SUCCESS resp)"
      by simp
    then show "hr_err ?h = DB_ERROR"
      by (rule http_loop_fails [rotated]) simp
  qed
  have x: "hr_err ?h = DB_ERROR \<and> (\<forall>k \<le> MAX_RETRIES. request_alloc_ok env k) \<longrightarrow>
      hr_attempts ?h = MAX_RETRIES + 1"
    using http_loop_error_exhausted [of 0 env response_size ?sockfd "?sockfd < 0" ?sockfd "[]"]
    by simp
  from b f x show ?thesis unfolding eq bo by simp
qed

text \<open>The theorem for an enabled client in the world where every connection attempt
  fails although a socket would carry the answer, next to the runs of the loop without
  a socket and on a kept socket in the unreachable world: three attempts, sleeps of 0.1
  and 0.2 seconds, then the error.\<close>

theorem http_request_bounded_witness:
  "http_request unreachable_env enabled_client 1024 =
     Returns \<lparr>hr_err = DB_ERROR, hr_response = [], hr_socket = - 1,
              hr_sleeps = [100000, 200000], hr_attempts = 3\<rparr> \<and>
   http_request unreachable_env connected_client 1024 =
     Returns \<lparr>hr_err = DB_ERROR, hr_response = [], hr_socket = 3,
              hr_sleeps = [100000, 200000], hr_attempts = 3\<rparr> \<and>
   map_option hr_err (returned (http_request (refusing_env ping_reply) enabled_client 1024)) =
     Some DB_ERROR \<and>
   map_option hr_attempts (returned (http_request (refusing_env ping_reply) enabled_client 1024)) =
     Some 3"
proof -
  obtain h where h: "http_request (refusing_env ping_reply) enabled_client 1024 = Returns h"
    and fails: "(\<forall>k \<le> MAX_RETRIES.
         ((0 < k \<or> page_server_socket enabled_client < 0) \<and>
          connect_fd (refusing_env ping_reply) k < 0) \<or>
         (\<forall>rc resp. send_and_receive (refusing_env ping_reply) 1024 k rc
            \<noteq> Return DB_SUCCESS resp)) \<longrightarrow> hr_err h = DB_ERROR"
    and exhausted: "hr_err h = DB_ERROR \<and>
        (\<forall>k \<le> MAX_RETRIES. request_alloc_ok (refusing_env ping_reply) k) \<longrightarrow>
        hr_attempts h = MAX_RETRIES + 1"
    using http_request_bounded [of enabled_client 1024 "refusing_env ping_reply"]
    by (auto simp: host_enabled_client)
  from fails refusing_no_connection have e: "hr_err h = DB_ERROR" by blast
  with exhausted have "hr_attempts h = 3"
    by (simp add: refusing_env_def MAX_RETRIES_def)
  with e h show ?thesis
    by (simp add: http_request_unreachable_enabled http_request_unreachable_connected
        returned_def)
qed

subsection \<open>The public operations\<close>

lemma http_request_unreachable:
  assumes "unreachable env" and "page_server_host c \<noteq> None" and "rs \<noteq> 0"
  shows "\<exists>h. http_request env c rs = Returns h \<and> hr_err h = DB_ERROR \<and>
           1 \<le> hr_attempts h \<and> hr_attempts h \<le> MAX_RETRIES + 1 \<and>
           ((\<forall>k \<le> MAX_RETRIES. request_alloc_ok env k) \<longrightarrow> hr_attempts h = MAX_RETRIES + 1)"
proof -
  let ?h = "http_loop env rs 0 (page_server_socket c) (page_server_socket c < 0)
              (page_server_socket c) []"
  have eq: "http_request env c rs = Returns ?h"
    using assms(2,3) by (rule http_request_returns)
  have e: "hr_err ?h = DB_ERROR"
    using assms(1) by (rule http_loop_unreachable)
  have b: "Suc 0 \<le> hr_attempts ?h \<and> hr_attempts ?h \<le> Suc MAX_RETRIES"
    using http_loop_bounds [of 0 env rs "page_server_socket c" "page_server_socket c < 0"
        "page_server_socket c" "[]"] by simp
  have x: "(\<forall>k \<le> MAX_RETRIES. request_alloc_ok env k) \<longrightarrow> hr_attempts ?h = MAX_RETRIES + 1"
    using http_loop_error_exhausted [OF _ _ e] by simp
  from eq e b x show ?thesis by simp
qed

text \<open>Claim C5, as the client behaves. \<^verbatim>\<open>stream_wal\<close> returns \<^verbatim>\<open>DB_SUCCESS\<close> without
  making a request exactly when the client is not enabled, and then it changes nothing.
  For an enabled client with its host set, once the buffer for the encoded record is
  allocated, a call made while the service is unreachable makes the request and
  returns its \<^verbatim>\<open>DB_ERROR\<close>; the request loop runs at most \<open>MAX_RETRIES + 1\<close> times, and
  all \<open>MAX_RETRIES + 1\<close> times while the request buffers can be allocated.\<close>

theorem stream_wal_degrades_only_when_disabled:
  "((\<exists>r. stream_wal env c lsn wal_data = Returns r \<and> wl_err r = DB_SUCCESS \<and> wl_io r = None)
      \<longleftrightarrow> \<not> is_enabled c) \<and>
   (\<not> is_enabled c \<longrightarrow>
      stream_wal env c lsn wal_data =
        Returns \<lparr>wl_err = DB_SUCCESS, wl_io = None, wl_client = c\<rparr>) \<and>
   (is_enabled c \<and> page_server_host c \<noteq> None \<and> malloc_ok env AllocWal \<and> unreachable env \<longrightarrow>
      (\<exists>h. http_request env c 1024 = Returns h \<and>
           stream_wal env c lsn wal_data =
             Returns \<lparr>wl_err = DB_ERROR, wl_io = Some h,
                      wl_client = c\<lparr>page_server_socket := hr_socket h\<rparr>\<rparr> \<and>
           hr_err h = DB_ERROR \<and> 1 \<le> hr_attempts h \<and> hr_attempts h \<le> MAX_RETRIES + 1 \<and>
           ((\<forall>k \<le> MAX_RETRIES. request_alloc_ok env k) \<longrightarrow>
              hr_attempts h = MAX_RETRIES + 1)))"
proof (intro conjI impI)
  show "(\<exists>r. stream_wal env c lsn wal_data = Returns r \<and> wl_err r = DB_SUCCESS \<and> wl_io r = None)
      \<longleftrightarrow> \<not> is_enabled c"
    by (cases "http_request env c 1024")
      (auto simp: stream_wal_def rpc_stream_wal_def and_then_def)
next
  assume "\<not> is_enabled c"
  then show "stream_wal env c lsn wal_data =
      Returns \<lparr>wl_err = DB_SUCCESS, wl_io = None, wl_client = c\<rparr>"
    by (simp add: stream_wal_def)
next
  assume a: "is_enabled c \<and> page_server_host c \<noteq> None \<and> malloc_ok env AllocWal \<and> unreachable env"
  then obtain h where h: "http_request env c 1024 = Returns h" "hr_err h = DB_ERROR"
      "1 \<le> hr_attempts h" "hr_attempts h \<le> MAX_RETRIES + 1"
      "(\<forall>k \<le> MAX_RETRIES. request_alloc_ok env k) \<longrightarrow> hr_attempts h = MAX_RETRIES + 1"
    using http_request_unreachable [of env c 1024] by auto
  with a have "stream_wal env c lsn wal_data =
      Returns \<lparr>wl_err = DB_ERROR, wl_io = Some h,
               wl_client = c\<lparr>page_server_socket := hr_socket h\<rparr>\<rparr>"
    by (simp add: stream_wal_def rpc_stream_wal_def and_then_def)
  with h show "\<exists>h. http_request env c 1024 = Returns h \<and>
           stream_wal env c lsn wal_data =
             Returns \<lparr>wl_err = DB_ERROR, wl_io = Some h,
                      wl_client = c\<lparr>page_server_socket := hr_socket h\<rparr>\<rparr> \<and>
           hr_err h = DB_ERROR \<and> 1 \<le> hr_attempts h \<and> hr_attempts h \<le> MAX_RETRIES + 1 \<and>
           ((\<forall>k \<le> MAX_RETRIES. request_alloc_ok env k) \<longrightarrow>
              hr_attempts h = MAX_RETRIES + 1)"
    by blast
qed

text \<open>The theorem for a client that was never initialised and for an enabled client
  with a kept socket, both in the unreachable world.\<close>

theorem stream_wal_degrades_only_when_disabled_witness:
  "stream_wal unreachable_env fresh_client 1000 hello_world =
     Returns \<lparr>wl_err = DB_SUCCESS, wl_io = None, wl_client = fresh_client\<rparr> \<and>
   stream_wal unreachable_env connected_client 1000 hello_world =
     Returns \<lparr>wl_err = DB_ERROR,
              wl_io = Some \<lparr>hr_err = DB_ERROR, hr_response = [], hr_socket = 3,
                             hr_sleeps = [100000, 200000], hr_attempts = 3\<rparr>,
              wl_client = connected_client\<rparr>"
proof -
  have "\<not> is_enabled fresh_client"
    by (simp add: is_enabled_def fresh_client_def)
  with stream_wal_degrades_only_when_disabled [of unreachable_env fresh_client 1000 hello_world]
  have first: "stream_wal unreachable_env fresh_client 1000 hello_world =
      Returns \<lparr>wl_err = DB_SUCCESS, wl_io = None, wl_client = fresh_client\<rparr>"
    by blast
  have "is_enabled connected_client \<and> page_server_host connected_client \<noteq> None \<and>
      malloc_ok unreachable_env AllocWal \<and> unreachable unreachable_env"
    by (simp add: is_enabled_connected_client host_connected_client malloc_ok_unreachable_env
        unreachable_unreachable_env)
  with stream_wal_degrades_only_when_disabled [of unreachable_env connected_client 1000 hello_world]
  obtain h where h: "http_request unreachable_env connected_client 1024 = Returns h"
    and s: "stream_wal unreachable_env connected_client 1000 hello_world =
      Returns \<lparr>wl_err = DB_ERROR, wl_io = Some h,
               wl_client = connected_client\<lparr>page_server_socket := hr_socket h\<rparr>\<rparr>"
    by blast
  from h have "h = \<lparr>hr_err = DB_ERROR, hr_response = [], hr_socket = 3,
      hr_sleeps = [100000, 200000], hr_attempts = 3\<rparr>"
    by (simp add: http_request_unreachable_connected)
  with s have "stream_wal unreachable_env connected_client 1000 hello_world =
     Returns \<lparr>wl_err = DB_ERROR,
              wl_io = Some \<lparr>hr_err = DB_ERROR, hr_response = [], hr_socket = 3,
                             hr_sleeps = [100000, 200000], hr_attempts = 3\<rparr>,
              wl_client = connected_client\<rparr>"
    by (simp add: connected_client_def)
  with first show ?thesis by simp
qed

text \<open>Claim C5 as stated fails: the client is enabled and holds the socket of its
  successful start, the service has become unreachable, and \<^verbatim>\<open>stream_wal\<close> returns
  \<^verbatim>\<open>DB_ERROR\<close> after three attempts, not success.\<close>

theorem stream_wal_unreachable_counterexample:
  "is_enabled connected_client \<and> unreachable unreachable_env \<and>
   stream_wal unreachable_env connected_client 1000 hello_world =
     Returns \<lparr>wl_err = DB_ERROR,
              wl_io = Some \<lparr>hr_err = DB_ERROR, hr_response = [], hr_socket = 3,
                             hr_sleeps = [100000, 200000], hr_attempts = 3\<rparr>,
              wl_client = connected_client\<rparr>"
  by (simp add: is_enabled_connected_client unreachable_unreachable_env stream_wal_def
      rpc_stream_wal_def and_then_def malloc_ok_unreachable_env
      http_request_unreachable_connected)
    (simp add: connected_client_def)

lemma ping_configured:
  "ping env (configured c a host port) =
     and_then (http_request env (configured c a host port) 1024) (\<lambda>h.
       Returns \<lparr>pn_ok = (hr_err h = DB_SUCCESS), pn_io = Some h,
                pn_client = (configured c a host port)\<lparr>page_server_socket := hr_socket h\<rparr>\<rparr>)"
  by (simp add: ping_def configured_def)

lemma ping_configured_enabled:
  assumes "ping env (configured c a host port) = Returns p"
  shows "page_server_enabled (pn_client p) \<and> page_server_initialized (pn_client p)"
  using assms unfolding ping_configured
  by (cases "http_request env (configured c a host port) 1024")
    (auto simp: and_then_def configured_def)

lemma ping_unreachable:
  assumes "unreachable env"
  shows "\<exists>p. ping env (configured c a host port) = Returns p \<and> \<not> pn_ok p"
proof -
  obtain h where "http_request env (configured c a host port) 1024 = Returns h"
    and "hr_err h = DB_ERROR"
    using http_request_unreachable [OF assms, of "configured c a host port" 1024]
    by (auto simp: configured_def)
  then show ?thesis
    unfolding ping_configured by (simp add: and_then_def)
qed

lemma parse_localhost:
  assumes "malloc_ok env AllocAddrCopy"
  shows "parse_address env ''localhost:8080'' = Some (''localhost'', 8080)"
  using assms
  by (simp add: parse_address_def strchr_def atoi_def strtol_def isspace_def
      isdigit_def digits_value_def Let_def)

lemma configured_fresh: "configured fresh_client ''localhost:8080'' ''localhost'' 8080 = enabled_client"
  by (simp add: enabled_client_def)

text \<open>Claim C7, as the client behaves. When the ping that \<^verbatim>\<open>init\<close> makes for a
  non-empty address fails, \<^verbatim>\<open>init\<close> disables the client and returns \<open>false\<close>. Afterwards
  \<^verbatim>\<open>is_enabled\<close> is false and the operations return without a request, in any world:
  \<^verbatim>\<open>get_page\<close> with \<^verbatim>\<open>DB_ERROR\<close>, \<^verbatim>\<open>stream_wal\<close> with \<^verbatim>\<open>DB_SUCCESS\<close>, \<^verbatim>\<open>ping\<close>
  with \<open>true\<close>. \<^verbatim>\<open>init\<close> returns \<open>true\<close> and leaves the client disabled exactly when the
  address is null or empty.\<close>

theorem init_ping_failure_disables_and_fails:
  "(a \<noteq> [] \<and> malloc_ok env AllocAddress \<and> parse_address env a = Some (host, port) \<and>
    ping env (configured c a host port) = Returns p \<and> \<not> pn_ok p \<longrightarrow>
      (\<exists>c'. init env c (Some a) = Returns \<lparr>in_ok = False, in_io = pn_io p, in_client = c'\<rparr> \<and>
            \<not> is_enabled c' \<and>
            get_page env' c' space_id page_no lsn page_size =
              Returns \<lparr>pg_err = DB_ERROR, pg_buf = [], pg_page_lsn = None, pg_io = None,
                       pg_client = c'\<rparr> \<and>
            stream_wal env' c' lsn wal_data =
              Returns \<lparr>wl_err = DB_SUCCESS, wl_io = None, wl_client = c'\<rparr> \<and>
            ping env' c' = Returns \<lparr>pn_ok = True, pn_io = None, pn_client = c'\<rparr>)) \<and>
   ((\<exists>r. init env c address = Returns r \<and> in_ok r \<and> \<not> is_enabled (in_client r))
      \<longleftrightarrow> (address = None \<or> address = Some []))"
proof (intro conjI impI)
  assume a: "a \<noteq> [] \<and> malloc_ok env AllocAddress \<and> parse_address env a = Some (host, port) \<and>
    ping env (configured c a host port) = Returns p \<and> \<not> pn_ok p"
  let ?c = "(pn_client p)\<lparr>page_server_enabled := False, page_server_address := None,
                            page_server_host := None\<rparr>"
  have i: "init env c (Some a) = Returns \<lparr>in_ok = False, in_io = pn_io p, in_client = ?c\<rparr>"
    using a by (simp add: init_def and_then_def)
  have ini: "page_server_initialized (pn_client p)"
    using a ping_configured_enabled by blast
  have dis: "\<not> is_enabled ?c"
    by (simp add: is_enabled_def)
  have "get_page env' ?c space_id page_no lsn page_size =
        Returns \<lparr>pg_err = DB_ERROR, pg_buf = [], pg_page_lsn = None, pg_io = None,
                 pg_client = ?c\<rparr> \<and>
      stream_wal env' ?c lsn wal_data =
        Returns \<lparr>wl_err = DB_SUCCESS, wl_io = None, wl_client = ?c\<rparr> \<and>
      ping env' ?c = Returns \<lparr>pn_ok = True, pn_io = None, pn_client = ?c\<rparr>"
    using dis ini by (simp add: get_page_def stream_wal_def ping_def)
  with i dis
  show "\<exists>c'. init env c (Some a) = Returns \<lparr>in_ok = False, in_io = pn_io p, in_client = c'\<rparr> \<and>
            \<not> is_enabled c' \<and>
            get_page env' c' space_id page_no lsn page_size =
              Returns \<lparr>pg_err = DB_ERROR, pg_buf = [], pg_page_lsn = None, pg_io = None,
                       pg_client = c'\<rparr> \<and>
            stream_wal env' c' lsn wal_data =
              Returns \<lparr>wl_err = DB_SUCCESS, wl_io = None, wl_client = c'\<rparr> \<and>
            ping env' c' = Returns \<lparr>pn_ok = True, pn_io = None, pn_client = c'\<rparr>"
    by blast
next
  show "(\<exists>r. init env c address = Returns r \<and> in_ok r \<and> \<not> is_enabled (in_client r))
      \<longleftrightarrow> (address = None \<or> address = Some [])"
  proof
    assume "address = None \<or> address = Some []"
    then show "\<exists>r. init env c address = Returns r \<and> in_ok r \<and> \<not> is_enabled (in_client r)"
      by (auto simp: init_def is_enabled_def)
  next
    assume "\<exists>r. init env c address = Returns r \<and> in_ok r \<and> \<not> is_enabled (in_client r)"
    then obtain r where r: "init env c address = Returns r" "in_ok r"
      "\<not> is_enabled (in_client r)"
      by blast
    show "address = None \<or> address = Some []"
    proof (rule ccontr)
      assume "\<not> (address = None \<or> address = Some [])"
      then obtain a where a: "address = Some a" "a \<noteq> []"
        by (cases address) auto
      show False
      proof (cases "malloc_ok env AllocAddress")
        case False
        with r a show False by (auto simp: init_def)
      next
        case True
        show False
        proof (cases "parse_address env a")
          case None
          with r a True show False by (auto simp: init_def)
        next
          case (Some hp)
          obtain host port where hp: "hp = (host, port)" by (cases hp)
          show False
          proof (cases "ping env (configured c a host port)")
            case (Returns p)
            with r a True Some hp have "pn_ok p" "in_client r = pn_client p"
              by (auto simp: init_def and_then_def split: if_splits)
            with ping_configured_enabled [OF Returns] r(3) show False
              by (simp add: is_enabled_def)
          qed (use r a True Some hp in \<open>simp_all add: init_def and_then_def\<close>)
        qed
      qed
    qed
  qed
qed

text \<open>The theorem for the address of the test script in the unreachable world, and for
  no address.\<close>

theorem init_ping_failure_disables_and_fails_witness:
  "map_option in_ok (returned (init unreachable_env fresh_client (Some ''localhost:8080'')))
     = Some False \<and>
   map_option (\<lambda>r. is_enabled (in_client r))
     (returned (init unreachable_env fresh_client (Some ''localhost:8080''))) = Some False \<and>
   map_option (\<lambda>r. stream_wal unreachable_env (in_client r) 1000 hello_world =
                     Returns \<lparr>wl_err = DB_SUCCESS, wl_io = None, wl_client = in_client r\<rparr>)
     (returned (init unreachable_env fresh_client (Some ''localhost:8080''))) = Some True \<and>
   init unreachable_env fresh_client None =
     Returns \<lparr>in_ok = True, in_io = None,
              in_client = fresh_client\<lparr>page_server_enabled := False,
                            page_server_initialized := True\<rparr>\<rparr>"
proof -
  obtain p where p: "ping unreachable_env
        (configured fresh_client ''localhost:8080'' ''localhost'' 8080) = Returns p"
      "\<not> pn_ok p"
    using ping_unreachable [OF unreachable_unreachable_env] by blast
  have "''localhost:8080'' \<noteq> [] \<and> malloc_ok unreachable_env AllocAddress \<and>
      parse_address unreachable_env ''localhost:8080'' = Some (''localhost'', 8080) \<and>
      ping unreachable_env (configured fresh_client ''localhost:8080'' ''localhost'' 8080)
        = Returns p \<and> \<not> pn_ok p"
    using p by (simp add: malloc_ok_unreachable_env parse_localhost)
  with init_ping_failure_disables_and_fails [of "''localhost:8080''" unreachable_env
      "''localhost''" 8080 fresh_client p unreachable_env 1 42 1000 16384 hello_world None]
  obtain c' where "init unreachable_env fresh_client (Some ''localhost:8080'') =
        Returns \<lparr>in_ok = False, in_io = pn_io p, in_client = c'\<rparr>"
      "\<not> is_enabled c'"
      "stream_wal unreachable_env c' 1000 hello_world =
         Returns \<lparr>wl_err = DB_SUCCESS, wl_io = None, wl_client = c'\<rparr>"
    by blast
  then show ?thesis
    by (simp add: returned_def init_def)
qed

text \<open>Claim C7 as stated fails: the service is unreachable and \<^verbatim>\<open>init\<close> returns
  \<open>false\<close>, not \<open>true\<close>.\<close>

theorem init_unreachable_counterexample:
  "unreachable unreachable_env \<and>
   map_option in_ok (returned (init unreachable_env fresh_client (Some ''localhost:8080'')))
     = Some False"
  by (simp add: unreachable_unreachable_env init_def malloc_ok_unreachable_env parse_localhost
      configured_fresh ping_def is_enabled_enabled_client [unfolded is_enabled_def]
      host_enabled_client http_request_unreachable_enabled and_then_def returned_def)

lemma replying_env_sel:
  "connect_fd (replying_env r f) k = 3"
  "request_alloc_ok (replying_env r f) k"
  "send_ok (replying_env r f) k"
  "malloc_ok (replying_env r f) site"
  "freed_text (replying_env r f) = f"
  by (simp_all add: replying_env_def)

lemma MAX_RESPONSE_SIZE_pos: "0 < MAX_RESPONSE_SIZE"
  by (simp add: MAX_RESPONSE_SIZE_def)

lemma read_ping_reply:
  "read_response (recv_bytes (replying_env ping_reply f) 0) 1024 0 [] = (ping_reply, False)"
  by (subst read_response.simps)
    (simp add: replying_env_def ping_reply_def crlfcrlf_def c_str_def)

text \<open>The enabled client with a kept socket is what \<^verbatim>\<open>init\<close> leaves when the service
  answers its ping.\<close>

lemma init_connects:
  "init (replying_env ping_reply f) fresh_client (Some ''localhost:8080'') =
     Returns \<lparr>in_ok = True,
              in_io = Some \<lparr>hr_err = DB_SUCCESS, hr_response = ping_reply, hr_socket = 3,
                             hr_sleeps = [], hr_attempts = 1\<rparr>,
              in_client = connected_client\<rparr>"
proof -
  have sr: "send_and_receive (replying_env ping_reply f) 1024 0 True =
      Return DB_SUCCESS ping_reply"
    unfolding send_and_receive_def read_ping_reply
    by (simp add: replying_env_sel ping_reply_def crlfcrlf_def c_str_def)
  have h: "http_request (replying_env ping_reply f) enabled_client 1024 =
      Returns \<lparr>hr_err = DB_SUCCESS, hr_response = ping_reply, hr_socket = 3,
               hr_sleeps = [], hr_attempts = 1\<rparr>"
    unfolding http_request_def
    by (subst http_loop.simps)
      (simp add: sr enabled_client_def configured_def fresh_client_def MAX_RETRIES_def
         replying_env_sel)
  show ?thesis
    by (simp add: init_def replying_env_sel parse_localhost configured_fresh ping_def
        is_enabled_enabled_client [unfolded is_enabled_def] host_enabled_client h and_then_def
        connected_client_def)
qed

subsection \<open>Base64\<close>

lemma store_group_length:
  assumes "length out \<le> n"
  shows "length (store_group out v pad n) \<le> n"
  using assms by (auto simp: store_group_def Let_def)

lemma base64_decode_loop_length:
  assumes "length out \<le> n"
  shows "length (base64_decode_loop inp i out v pad n) \<le> n"
  using assms
proof (induction inp arbitrary: i out v pad)
  case Nil
  then show ?case by simp
next
  case (Cons c cs)
  then show ?case
    by (auto simp: Let_def store_group_length split: option.splits)
qed

lemma base64_decode_length: "length (base64_decode inp n) \<le> n"
  by (simp add: base64_decode_def base64_decode_loop_length)

lemma store_group_grows: "length (store_group out v pad n) \<le> length out + 3"
  by (simp add: store_group_def Let_def)

lemma decode_loop_length_points:
  "length (base64_decode_loop inp i out v pad n) \<le> length out + 3 * store_points inp i"
proof (induction inp arbitrary: i out v pad)
  case Nil
  then show ?case by simp
next
  case (Cons c cs)
  show ?case
  proof (cases "length out < n")
    case False
    then show ?thesis by simp
  next
    case room: True
    show ?thesis
    proof (cases "c = CHR ''=''")
      case True
      with room Cons [of "i + 1" out v "pad + 1"] show ?thesis by simp
    next
      case noteq: False
      show ?thesis
      proof (cases "decode_index c")
        case None
        with room noteq Cons [of "i + 1" out v pad] show ?thesis by simp
      next
        case (Some idx)
        let ?v = "push_bit 6 v OR of_nat idx"
        show ?thesis
        proof (cases "(i + 1) mod 4 = 0")
          case True
          have "length (base64_decode_loop cs (i + 1) (store_group out ?v pad n) 0 pad n)
              \<le> length (store_group out ?v pad n) + 3 * store_points cs (i + 1)"
            by (rule Cons)
          also have "\<dots> \<le> length out + 3 + 3 * store_points cs (i + 1)"
            using store_group_grows [of out ?v pad n] by simp
          finally show ?thesis using room noteq Some True by (simp add: Let_def)
        next
          case False
          with room noteq Some Cons [of "i + 1" out ?v pad] show ?thesis
            by (simp add: Let_def)
        qed
      qed
    qed
  qed
qed

lemma store_points_append:
  "store_points (xs @ ys) i = store_points xs i + store_points ys (i + length xs)"
  by (induction xs arbitrary: i) simp_all

lemma encode_group_shape:
  "\<exists>a b c d. encode_group data i = [a, b, c, d] \<and> (\<not> i + 2 < length data \<longrightarrow> d = CHR ''='')"
  by (simp add: encode_group_def Let_def)

lemma store_points_four:
  assumes "j mod 4 = 0"
  shows "store_points [a, b, c, d] j = (if d \<noteq> CHR ''='' then 1 else 0)"
proof -
  from assms have "Suc j mod 4 \<noteq> 0" "Suc (Suc j) mod 4 \<noteq> 0" "Suc (Suc (Suc j)) mod 4 \<noteq> 0"
    "Suc (Suc (Suc (Suc j))) mod 4 = 0"
    by presburger+
  then show ?thesis by simp
qed

lemma store_points_encode_group:
  assumes "j mod 4 = 0"
  shows "store_points (encode_group data i) j \<le> (if i + 2 < length data then 1 else 0)"
proof -
  obtain a b c d where g: "encode_group data i = [a, b, c, d]"
    and pad: "\<not> i + 2 < length data \<longrightarrow> d = CHR ''=''"
    using encode_group_shape by blast
  show ?thesis
    unfolding g store_points_four [OF assms] using pad by simp
qed

lemma length_encode_group: "length (encode_group data i) = 4"
  by (simp add: encode_group_def Let_def)

lemma store_points_encode_loop:
  assumes "j' mod 4 = 0"
  shows "store_points (base64_encode_loop data i j m) j' \<le> (length data - i) div 3"
  using assms
proof (induction data i j m arbitrary: j' rule: base64_encode_loop.induct)
  case (1 data i j m)
  show ?case
  proof (cases "i < length data \<and> j + 4 < m")
    case False
    then have "base64_encode_loop data i j m = []"
      by (auto simp: base64_encode_loop.simps [of data i j m])
    then show ?thesis by simp
  next
    case True
    have j4: "(j' + 4) mod 4 = 0" using "1.prems" by presburger
    have rest: "store_points (base64_encode_loop data (i + 3) (j + 4) m) (j' + 4)
        \<le> (length data - (i + 3)) div 3"
      using "1.IH" [OF True j4] .
    have grp: "store_points (encode_group data i) j' \<le> (if i + 2 < length data then 1 else 0)"
      using "1.prems" by (rule store_points_encode_group)
    have "store_points (base64_encode_loop data i j m) j' =
        store_points (encode_group data i) j' +
        store_points (base64_encode_loop data (i + 3) (j + 4) m) (j' + 4)"
      using True
      by (simp add: base64_encode_loop.simps [of data i j m] store_points_append
          length_encode_group)
    also have "\<dots> \<le> (if i + 2 < length data then 1 else 0) + (length data - (i + 3)) div 3"
      using grp rest by (rule add_mono)
    also have "\<dots> \<le> (length data - i) div 3"
    proof (cases "i + 2 < length data")
      case True
      then have "length data - i = (length data - (i + 3)) + 3" by simp
      then show ?thesis using True by simp
    next
      case False
      then show ?thesis by simp
    qed
    finally show ?thesis .
  qed
qed

text \<open>Whatever the sizes of the two buffers, decoding an encoding yields at most the
  bytes of the complete groups of three; hence no data whose length is not a multiple of
  three survives the round trip. The page sizes, powers of two, are such lengths.\<close>

lemma base64_roundtrip_length:
  "length (base64_decode (base64_encode data m) n) \<le> 3 * (length data div 3)"
proof -
  have "length (base64_decode (base64_encode data m) n)
      \<le> 3 * store_points (base64_encode_loop data 0 0 m) 0"
    using decode_loop_length_points [of "base64_encode_loop data 0 0 m" 0 "[]" 0 0 n]
    by (simp add: base64_decode_def base64_encode_def)
  also have "\<dots> \<le> 3 * (length data div 3)"
    using store_points_encode_loop [of 0 data 0 0 m] by simp
  finally show ?thesis .
qed

lemma base64_roundtrip_fails:
  assumes "length data mod 3 \<noteq> 0"
  shows "base64_decode (base64_encode data m) n \<noteq> data"
proof
  assume "base64_decode (base64_encode data m) n = data"
  then have "length data \<le> 3 * (length data div 3)"
    using base64_roundtrip_length [of data m n] by simp
  with assms show False by presburger
qed

text \<open>Claim C6 fails on the code. The encoder pads the last group with \<^verbatim>\<open>=\<close> when the
  length of the data is not a multiple of three; the decoder steps over a \<^verbatim>\<open>=\<close> with
  \<^verbatim>\<open>continue\<close>, before the test that stores a group, so a padded group is never stored.
  One byte encodes to \<^verbatim>\<open>QQ==\<close> and decodes to nothing; four bytes come back as three.\<close>

theorem base64_roundtrip_loses_padded_group:
  "base64_encode [0x41] 5 = ''QQ=='' \<and>
   base64_decode (base64_encode [0x41] 5) 1 = [] \<and>
   base64_encode [0x41, 0x42, 0x43, 0x44] 9 = ''QUJDRA=='' \<and>
   base64_decode (base64_encode [0x41, 0x42, 0x43, 0x44] 9) 4 = [0x41, 0x42, 0x43]"
  by (simp add: base64_encode_def base64_encode_loop.simps encode_group_def base64_chars_def
      base64_decode_def decode_index_def store_group_def)

subsection \<open>Fetching a page\<close>

lemma read_reply:
  "read_response (recv_bytes (replying_env (success_reply ''QUJDREVG'') f) 0) MAX_RESPONSE_SIZE 0 [] =
     (success_reply ''QUJDREVG'', False)"
  by (subst read_response.simps)
    (simp add: replying_env_def success_reply_def MAX_RESPONSE_SIZE_def crlfcrlf_def c_str_def)

lemma http_reply:
  "http_request (replying_env (success_reply ''QUJDREVG'') f) enabled_client MAX_RESPONSE_SIZE =
     Returns \<lparr>hr_err = DB_SUCCESS, hr_response = success_reply ''QUJDREVG'', hr_socket = 3,
              hr_sleeps = [], hr_attempts = 1\<rparr>"
proof -
  have sr: "send_and_receive (replying_env (success_reply ''QUJDREVG'') f) MAX_RESPONSE_SIZE 0 True =
      Return DB_SUCCESS (success_reply ''QUJDREVG'')"
    unfolding send_and_receive_def read_reply
    by (simp add: replying_env_sel success_reply_def crlfcrlf_def c_str_def)
  show ?thesis
    unfolding http_request_def
    by (subst http_loop.simps)
      (simp add: sr enabled_client_def configured_def fresh_client_def MAX_RETRIES_def
         MAX_RESPONSE_SIZE_pos replying_env_sel)
qed

lemma body_reply:
  "extract_json_body (success_reply ''QUJDREVG'') =
     ''{\"status\":\"success\",\"page_data\":\"QUJDREVG\",\"page_lsn\":7}''"
  by (simp add: extract_json_body_def success_reply_def crlfcrlf_def)

lemma status_reply:
  "json_get_string ''{\"status\":\"success\",\"page_data\":\"QUJDREVG\",\"page_lsn\":7}'' ''status'' 64
     = JValue ''success''"
  by (simp add: json_get_string_def json_key_def strchr_def)

lemma data_reply:
  "json_get_string ''{\"status\":\"success\",\"page_data\":\"QUJDREVG\",\"page_lsn\":7}'' ''page_data''
     MAX_RESPONSE_SIZE = JValue ''QUJDREVG''"
  by (simp add: json_get_string_def json_key_def strchr_def MAX_RESPONSE_SIZE_def)

lemma lsn_reply:
  "json_get_uint64 ''{\"status\":\"success\",\"page_data\":\"QUJDREVG\",\"page_lsn\":7}'' ''page_lsn''
     = Some 7"
  by (simp add: json_get_uint64_def json_key_def strchr_def strtoull_def isspace_def isdigit_def
      digits_value_def)

lemma lsn_of_nothing: "json_get_uint64 [] ''page_lsn'' = None"
  by (simp add: json_get_uint64_def json_key_def)

lemma decode_six: "base64_decode ''QUJDREVG'' 3 = [0x41, 0x42, 0x43]"
  by (simp add: base64_decode_def decode_index_def store_group_def)

lemma decode_six_full: "base64_decode ''QUJDREVG'' 6 = [0x41, 0x42, 0x43, 0x44, 0x45, 0x46]"
  by (simp add: base64_decode_def decode_index_def store_group_def)

text \<open>A page fetch that returns \<^verbatim>\<open>DB_SUCCESS\<close> has stored at least one byte and at most
  \<open>page_size\<close> bytes in the caller's buffer.\<close>

lemma get_page_success_size:
  assumes "get_page env c space_id page_no lsn page_size = Returns r"
    and "pg_err r = DB_SUCCESS"
  shows "pg_buf r \<noteq> [] \<and> length (pg_buf r) \<le> page_size"
  using assms
  by (cases "http_request env c MAX_RESPONSE_SIZE")
    (auto simp: get_page_def rpc_get_page_def and_then_def Let_def base64_decode_length
      split: if_splits json_value.splits)

text \<open>Claim C10 fails on the code for a payload larger than the page size. The decoder
  stops at \<open>page_size\<close> bytes (\<open>base64_decode_length\<close>), so the test
  \<^verbatim>\<open>decoded_len > page_size\<close> never holds: a response with status \<^verbatim>\<open>success\<close> whose
  page data decodes to six bytes, fetched with a page size of three, returns
  \<^verbatim>\<open>DB_SUCCESS\<close> with the first three bytes.\<close>

theorem oversized_payload_is_truncated:
  "map_option pg_err (returned (get_page (replying_env (success_reply ''QUJDREVG'') (\<lambda>t. t))
      enabled_client 1 42 5 3)) = Some DB_SUCCESS \<and>
   map_option pg_buf (returned (get_page (replying_env (success_reply ''QUJDREVG'') (\<lambda>t. t))
      enabled_client 1 42 5 3)) = Some [0x41, 0x42, 0x43] \<and>
   base64_decode ''QUJDREVG'' 6 = [0x41, 0x42, 0x43, 0x44, 0x45, 0x46]"
  unfolding get_page_def rpc_get_page_def http_reply and_then_def Let_def
  by (simp add: is_enabled_enabled_client body_reply status_reply data_reply decode_six
      decode_six_full returned_def replying_env_sel)

subsection \<open>The LSN of a fetched page\<close>

text \<open>Every page the server returns carries the LSN of the request.\<close>

lemma handleGetPage_page_lsn_is_request_lsn:
  assumes "fst (handleGetPage s r) = JsonResp 200 resp" and "decoded r = Some req"
  shows "gr_PageLSN resp = gp_LSN req"
  using assms
  by (auto simp: handleGetPage_def Let_def split: if_splits option.splits)

text \<open>Claim C1 fails on the code. The server has no LSN of a stored page: it answers
  with the LSN of the request. The same stored image, read at LSN 5 and at LSN 7, is
  returned with page LSN 5 and with page LSN 7.\<close>

theorem get_page_lsn_echo:
  "fst (handleGetPage \<lparr>pages = [''1:42'' \<mapsto> [0x41]], walRecords = []\<rparr> (page_request 5)) =
     JsonResp 200 \<lparr>gr_Status = ''success'', gr_PageData = ''QQ=='', gr_PageLSN = 5, gr_Error = []\<rparr> \<and>
   fst (handleGetPage \<lparr>pages = [''1:42'' \<mapsto> [0x41]], walRecords = []\<rparr> (page_request 7)) =
     JsonResp 200 \<lparr>gr_Status = ''success'', gr_PageData = ''QQ=='', gr_PageLSN = 7, gr_Error = []\<rparr>"
  by (simp add: handleGetPage_def page_request_def page_key_1_42 std_char_def encodeStd_def)

text \<open>On the client, the page LSN is looked up in the response after the response
  buffer has been released. Where the released memory still holds the text, the LSN
  the server reported (7) is stored; where it does not, the lookup fails and the LSN of
  the request (5) is stored.\<close>

lemma get_page_lsn_after_free:
  "map_option pg_page_lsn (returned (get_page (replying_env (success_reply ''QUJDREVG'') (\<lambda>t. t))
      enabled_client 1 42 5 6)) = Some (Some 7) \<and>
   map_option pg_page_lsn (returned (get_page (replying_env (success_reply ''QUJDREVG'') (\<lambda>t. []))
      enabled_client 1 42 5 6)) = Some (Some 5)"
  unfolding get_page_def rpc_get_page_def http_reply and_then_def Let_def
  by (simp add: is_enabled_enabled_client body_reply status_reply data_reply decode_six_full
      lsn_reply lsn_of_nothing returned_def replying_env_sel)

end
